theory Spec2Isabelle
  imports Complex_Main "HOL-Library.AList"
begin

chapter \<open>The model\<close>

section \<open>Errors\<close>

text \<open>
  The error classes the supervisor distinguishes with \<open>instanceof\<close> (\<open>lib/errors\<close>), each
  carrying its message, and the system errors of the file system calls with their code.
  \<open>isENOENT\<close> is the predicate \<open>ENOENT\<close> of \<open>lib/errors\<close>, which tests the error's code.
\<close>

datatype fs_code = ENOENT | EEXIST | EACCES

datatype error =
    UpdatesLockedError string
  | InternalInconsistencyError string
  | Error string
  | SysError fs_code string

fun message :: "error \<Rightarrow> string" where
  "message (UpdatesLockedError m) = m"
| "message (InternalInconsistencyError m) = m"
| "message (Error m) = m"
| "message (SysError c m) = m"

fun isUpdatesLockedError :: "error \<Rightarrow> bool" where
  "isUpdatesLockedError (UpdatesLockedError m) = True"
| "isUpdatesLockedError e = False"

fun isENOENT :: "error \<Rightarrow> bool" where
  "isENOENT (SysError c m) = (c = ENOENT)"
| "isENOENT e = False"

definition errText :: "fs_code \<Rightarrow> string" where
  "errText c = (case c of ENOENT \<Rightarrow> ''ENOENT: no such file or directory''
                 | EEXIST \<Rightarrow> ''EEXIST: file already exists''
                 | EACCES \<Rightarrow> ''EACCES: permission denied'')"

section \<open>lib/update-lock.ts: advisory update locks\<close>

text \<open>
  A lock file is named by the application, the service and the file name: the path
  \<open>/tmp/balena-supervisor/services/<appId>/<serviceName>/<filename>\<close> under the host's
  root mount. The state the module works on is the host's file system (the lock files that
  exist, the service directories that exist, what \<open>fs.readdir\<close> answers for the lock
  directory of an application), the module-global registry \<open>locksTaken\<close> (its keys in
  insertion order, which is the order \<open>_.keys\<close> enumerates them in) and the calls made so
  far. Promises are run to completion one after the other: \<open>mapSeries\<close> stops at the first
  rejection and \<open>Bluebird.map\<close> calls its mapper on the keys in order.
\<close>

type_synonym lockfile = "int \<times> string \<times> string"

datatype lock_event =
    WriteLocked int
  | Unlocked lockfile
  | Locked lockfile
  | LockFailed lockfile fs_code
  | Released int

record lock_state =
  files :: "lockfile set"
  dirs :: "(int \<times> string) set"
  readdirResult :: "int \<Rightarrow> error + string list"
  locksTaken :: "lockfile list"
  calls :: "lock_event list"

definition lockFilesOnHost :: "int \<Rightarrow> string \<Rightarrow> lockfile list" where
  "lockFilesOnHost appId serviceName =
     map (\<lambda>filename. (appId, serviceName, filename)) [''updates.lock'', ''resin-updates.lock'']"

text \<open>
  The \<open>lockfile\<close> package: \<open>unlock\<close> unlinks the file and ignores every error; \<open>lock\<close>
  without options opens the file exclusively (\<open>wx\<close>), which fails with \<open>ENOENT\<close> when the
  directory is missing and with \<open>EEXIST\<close> when the file is there.
\<close>

definition unlockAsync :: "lockfile \<Rightarrow> lock_state \<Rightarrow> lock_state" where
  "unlockAsync p st = st\<lparr>files := files st - {p}, calls := calls st @ [Unlocked p]\<rparr>"

definition lockAsync :: "lockfile \<Rightarrow> lock_state \<Rightarrow> error option \<times> lock_state" where
  "lockAsync p st =
     (if (fst p, fst (snd p)) \<notin> dirs st
      then (Some (SysError ENOENT (errText ENOENT)),
            st\<lparr>calls := calls st @ [LockFailed p ENOENT]\<rparr>)
      else if p \<in> files st
      then (Some (SysError EEXIST (errText EEXIST)),
            st\<lparr>calls := calls st @ [LockFailed p EEXIST]\<rparr>)
      else (None, st\<lparr>files := insert p (files st), calls := calls st @ [Locked p]\<rparr>))"

text \<open>\<open>locksTaken[tmpLockName] = true\<close>: a new key goes last, an old one keeps its place.\<close>

definition register :: "lockfile \<Rightarrow> lockfile list \<Rightarrow> lockfile list" where
  "register p ks = (if p \<in> set ks then ks else ks @ [p])"

text \<open>The chain run for one lock file: unlock it first when forced, lock it, record it; an
  \<open>ENOENT\<close> anywhere in the chain is turned into success (\<open>catchReturn\<close>).\<close>

definition takeLockFile :: "bool \<Rightarrow> lockfile \<Rightarrow> lock_state \<Rightarrow> error option \<times> lock_state" where
  "takeLockFile force tmpLockName st =
     (let st1 = (if force then unlockAsync tmpLockName st else st)
      in case lockAsync tmpLockName st1 of
           (None, st2) \<Rightarrow> (None, st2\<lparr>locksTaken := register tmpLockName (locksTaken st2)\<rparr>)
         | (Some err, st2) \<Rightarrow> if isENOENT err then (None, st2) else (Some err, st2))"

text \<open>The inner \<open>mapSeries\<close>, over the lock files of one service.\<close>

fun takeLockFiles :: "bool \<Rightarrow> lockfile list \<Rightarrow> lock_state \<Rightarrow> error option \<times> lock_state" where
  "takeLockFiles force [] st = (None, st)"
| "takeLockFiles force (p # ps) st =
     (case takeLockFile force p st of
        (Some err, st') \<Rightarrow> (Some err, st')
      | (None, st') \<Rightarrow> takeLockFiles force ps st')"

text \<open>The in-process writer lock of \<open>rwlock\<close> and its release callback.\<close>

definition writeLock :: "int \<Rightarrow> lock_state \<Rightarrow> lock_state" where
  "writeLock key st = st\<lparr>calls := calls st @ [WriteLocked key]\<rparr>"

definition release :: "int \<Rightarrow> lock_state \<Rightarrow> lock_state" where
  "release key st = st\<lparr>calls := calls st @ [Released key]\<rparr>"

text \<open>\<open>dispose\<close>: every key of the registry, whoever put it there, is deleted and its file
  unlocked; then the writer lock is released.\<close>

definition disposeKey :: "lockfile \<Rightarrow> lock_state \<Rightarrow> lock_state" where
  "disposeKey lockName st =
     unlockAsync lockName (st\<lparr>locksTaken := removeAll lockName (locksTaken st)\<rparr>)"

definition dispose :: "int \<Rightarrow> lock_state \<Rightarrow> lock_state" where
  "dispose key st = release key (fold disposeKey (locksTaken st) st)"

text \<open>The outer \<open>mapSeries\<close>, over the service names, with the \<open>catch\<close> that disposes and
  throws \<open>UpdatesLockedError\<close>.\<close>

fun takeServices :: "bool \<Rightarrow> int \<Rightarrow> string list \<Rightarrow> lock_state \<Rightarrow> error option \<times> lock_state"
  where
  "takeServices force appId [] st = (None, st)"
| "takeServices force appId (serviceName # rest) st =
     (case takeLockFiles force (lockFilesOnHost appId serviceName) st of
        (Some err, st') \<Rightarrow>
          (Some (UpdatesLockedError (''Updates are locked: '' @ message err)), dispose appId st')
      | (None, st') \<Rightarrow> takeServices force appId rest st')"

text \<open>\<open>fs.readdir(lockDir)\<close> with \<open>catchReturn(ENOENT, [])\<close>.\<close>

definition readLockDir :: "int \<Rightarrow> lock_state \<Rightarrow> error + string list" where
  "readLockDir appId st =
     (case readdirResult st appId of
        Inl err \<Rightarrow> if isENOENT err then Inr [] else Inl err
      | Inr names \<Rightarrow> Inr names)"

text \<open>
  \<open>lock\<close>. The thunk \<open>fn\<close> is any computation on the same state that returns or throws.
  Without an application there is no disposer and the thunk runs as it is. When taking
  the locks rejects, \<open>Bluebird.using\<close> runs neither the thunk nor the disposer; otherwise
  the disposer runs after the thunk, whatever its outcome.
\<close>

definition lock ::
  "int option \<Rightarrow> bool \<Rightarrow> (lock_state \<Rightarrow> error option \<times> lock_state) \<Rightarrow> lock_state
     \<Rightarrow> error option \<times> lock_state" where
  "lock appId force fn st =
     (case appId of
        None \<Rightarrow> fn st
      | Some a \<Rightarrow>
          let st1 = writeLock a st
          in case readLockDir a st1 of
               Inl err \<Rightarrow> (Some err, st1)
             | Inr names \<Rightarrow>
                 (case takeServices force a names st1 of
                    (Some err, st2) \<Rightarrow> (Some err, st2)
                  | (None, st2) \<Rightarrow>
                      (case fn st2 of (r, st3) \<Rightarrow> (r, dispose a st3))))"

text \<open>The lock files a sequence of calls has taken, and those it has unlocked, in order.\<close>

fun acquired :: "lock_event list \<Rightarrow> lockfile list" where
  "acquired [] = []"
| "acquired (Locked p # evs) = p # acquired evs"
| "acquired (ev # evs) = acquired evs"

fun released :: "lock_event list \<Rightarrow> lockfile list" where
  "released [] = []"
| "released (Unlocked p # evs) = p # released evs"
| "released (ev # evs) = released evs"

text \<open>
  Two hosts to run \<open>lock\<close> on. On \<open>host_a\<close> application 7 has the services \<open>a\<close> and \<open>b\<close>,
  a listed directory \<open>gone\<close> that no longer exists, and \<open>b\<close> holds its \<open>updates.lock\<close>; the
  registry is empty. On \<open>host_b\<close> application 7 has the service \<open>a\<close>, which holds its
  \<open>resin-updates.lock\<close>, and the registry holds a lock file of application 9, taken by
  another call. \<open>host_a_blocked\<close> and \<open>host_b_blocked\<close> are the states in which the
  attempt to take the locks of application 7 fails.
\<close>

definition host_a :: lock_state where
  "host_a = \<lparr>files = {(7, ''b'', ''updates.lock'')}, dirs = {(7, ''a''), (7, ''b'')},
          readdirResult = (\<lambda>a. if a = 7 then Inr [''a'', ''b'', ''gone'']
                                else Inl (SysError ENOENT (errText ENOENT))),
          locksTaken = [], calls = []\<rparr>"

definition host_a_blocked :: lock_state where
  "host_a_blocked =
     \<lparr>files = {(7, ''a'', ''resin-updates.lock''), (7, ''a'', ''updates.lock''),
             (7, ''b'', ''updates.lock'')},
      dirs = {(7, ''a''), (7, ''b'')},
      readdirResult = (\<lambda>a. if a = 7 then Inr [''a'', ''b'', ''gone'']
                            else Inl (SysError ENOENT (errText ENOENT))),
      locksTaken = [(7, ''a'', ''updates.lock''), (7, ''a'', ''resin-updates.lock'')],
      calls = [WriteLocked 7, Locked (7, ''a'', ''updates.lock''),
               Locked (7, ''a'', ''resin-updates.lock''),
               LockFailed (7, ''b'', ''updates.lock'') EEXIST]\<rparr>"

definition host_b :: lock_state where
  "host_b = \<lparr>files = {(7, ''a'', ''resin-updates.lock''), (9, ''x'', ''updates.lock'')},
          dirs = {(7, ''a''), (9, ''x'')},
          readdirResult = (\<lambda>a. if a = 7 then Inr [''a'']
                                else Inl (SysError ENOENT (errText ENOENT))),
          locksTaken = [(9, ''x'', ''updates.lock'')], calls = []\<rparr>"


section \<open>JSON values\<close>

text \<open>
  Request bodies, target states and response bodies are JSON values; \<open>JUndefined\<close> is the
  value of a property that is not there. \<open>getProp\<close> reads a property of a value that is
  neither \<open>null\<close> nor \<open>undefined\<close> (for an array or a primitive value, a property with
  one of the names used here is not there).
\<close>

datatype json =
    JUndefined
  | JNull
  | JBool bool
  | JNum int
  | JStr string
  | JArr "json list"
  | JObj "(string \<times> json) list"

fun isObject :: "json \<Rightarrow> bool" where
  "isObject (JArr xs) = True"
| "isObject (JObj kvs) = True"
| "isObject v = False"

fun isNullish :: "json \<Rightarrow> bool" where
  "isNullish JUndefined = True"
| "isNullish JNull = True"
| "isNullish v = False"

fun getProp :: "json \<Rightarrow> string \<Rightarrow> json" where
  "getProp (JObj kvs) k = (case map_of kvs k of Some v \<Rightarrow> v | None \<Rightarrow> JUndefined)"
| "getProp v k = JUndefined"

section \<open>device-state.ts: the module's variables\<close>

text \<open>
  Times and delays are in milliseconds, as rational numbers (the rounding of IEEE doubles
  is not modelled). \<open>process.hrtime()\<close> readings are pairs of whole seconds and
  nanoseconds below \<open>10^9\<close>.
\<close>

type_synonym hrtime = "int \<times> int"

record scheduled =
  s_force :: bool
  s_delay :: "rat option"

record pending =
  p_delay :: rat
  p_force :: bool
  p_initial :: bool

datatype log_level = LogDebug | LogInfo | LogError | LogSuccess

datatype log_text =
    HealthcheckFailure bool bool bool
  | UpdatesLockedRetrying rat
  | SchedulingAnotherAttempt rat error
  | UpdatingFailedAnotherScheduled error
  | InvalidDelay
  | DeviceStateApplyError error
  | DeviceStateApplySuccess

datatype ds_event =
    Change
  | Shutdown
  | ApplyTargetStateError error
  | ApplyTargetStateEnd "error option"
  | TargetStateChanged json

text \<open>The calls to the collaborators of the module, in the order they are made.\<close>

datatype effect =
    StopAll bool "bool option"
  | SystemMessage string string
  | SystemMessageLocked log_text
  | HostReboot
  | HostShutdown
  | ConfigExecuteStepAction string
  | ManagerExecuteStep string bool "bool option"

text \<open>What the database holds of the target state once a transaction of \<open>setTarget\<close>
  has been committed.\<close>

record target_store =
  t_name :: json
  t_config :: json
  t_apps :: json
  t_dependent :: json
  t_source :: string

text \<open>
  The variables of the module (\<open>cancelDelay\<close> is true when the variable holds a function,
  \<open>pendingApply\<close> is the timer \<open>triggerApplyTarget\<close> has set and the apply it leads to,
  \<open>delayCancelled\<close> records a call of \<open>cancelDelay\<close>), followed by what the module has
  emitted, logged, called and written.
\<close>

record device_state =
  failedUpdates :: nat
  applyInProgress :: bool
  applyCancelled :: bool
  scheduledApply :: "scheduled option"
  shuttingDown :: bool
  lastApplyStart :: hrtime
  maxPollTime :: rat
  cancelDelay :: bool
  currentVolatile :: "(string \<times> json) list"
  pendingApply :: "pending option"
  delayCancelled :: bool
  emitted :: "ds_event list"
  logged :: "(log_level \<times> log_text) list"
  effects :: "effect list"
  store :: "target_store option"
  transactions :: nat

definition initial_state :: device_state where
  "initial_state =
     \<lparr>failedUpdates = 0, applyInProgress = False, applyCancelled = False,
      scheduledApply = None, shuttingDown = False, lastApplyStart = (0, 0),
      maxPollTime = 900000, cancelDelay = False, currentVolatile = [], pendingApply = None,
      delayCancelled = False, emitted = [], logged = [], effects = [], store = None,
      transactions = 0\<rparr>"

definition emitAsync :: "ds_event \<Rightarrow> device_state \<Rightarrow> device_state" where
  "emitAsync ev st = st\<lparr>emitted := emitted st @ [ev]\<rparr>"

definition logAt :: "log_level \<Rightarrow> log_text \<Rightarrow> device_state \<Rightarrow> device_state" where
  "logAt lvl txt st = st\<lparr>logged := logged st @ [(lvl, txt)]\<rparr>"

definition perform :: "effect \<Rightarrow> device_state \<Rightarrow> device_state" where
  "perform eff st = st\<lparr>effects := effects st @ [eff]\<rparr>"

section \<open>device-state.ts: validation and setTarget\<close>

text \<open>The predicates of \<open>lib/validation\<close>, which the module takes as they are.\<close>

record validation =
  isValidShortText :: "json \<Rightarrow> bool"
  isValidAppsObject :: "json \<Rightarrow> bool"
  isValidEnv :: "json \<Rightarrow> bool"
  isValidDependentAppsObject :: "json \<Rightarrow> bool"
  isValidDependentDevicesObject :: "json \<Rightarrow> bool"

text \<open>The validators return the error they throw, or \<open>None\<close>.\<close>

definition validateLocalState :: "validation \<Rightarrow> json \<Rightarrow> error option" where
  "validateLocalState v state =
     (if \<not> isNullish (getProp state ''name'') \<and> \<not> isValidShortText v (getProp state ''name'')
      then Some (Error ''Invalid device name'')
      else if isNullish (getProp state ''apps'') \<or> \<not> isValidAppsObject v (getProp state ''apps'')
      then Some (Error ''Invalid apps'')
      else if isNullish (getProp state ''config'') \<or> \<not> isValidEnv v (getProp state ''config'')
      then Some (Error ''Invalid device configuration'')
      else None)"

definition validateDependentState :: "validation \<Rightarrow> json \<Rightarrow> error option" where
  "validateDependentState v state =
     (if \<not> isNullish (getProp state ''apps'')
         \<and> \<not> isValidDependentAppsObject v (getProp state ''apps'')
      then Some (Error ''Invalid dependent apps'')
      else if \<not> isNullish (getProp state ''devices'')
         \<and> \<not> isValidDependentDevicesObject v (getProp state ''devices'')
      then Some (Error ''Invalid dependent devices'')
      else None)"

text \<open>The messages of the errors that validation throws for the local state.\<close>

definition validationMessages :: "string set" where
  "validationMessages =
     {''State must be an object'', ''Local state must be an object'',
      ''Invalid device name'', ''Invalid apps'', ''Invalid device configuration''}"

definition validateState :: "validation \<Rightarrow> json \<Rightarrow> error option" where
  "validateState v state =
     (if \<not> isObject state then Some (Error ''State must be an object'')
      else if \<not> isObject (getProp state ''local'')
      then Some (Error ''Local state must be an object'')
      else case validateLocalState v (getProp state ''local'') of
             Some err \<Rightarrow> Some err
           | None \<Rightarrow>
               if \<not> isNullish (getProp state ''dependent'')
               then validateDependentState v (getProp state ''dependent'')
               else None)"

text \<open>
  \<open>setTarget\<close>, with the config value \<open>apiEndpoint\<close> and the outcome of the database
  transaction as it would be (\<open>None\<close> when it commits). It returns the error it throws, or
  \<open>None\<close>, and the state it leaves. The database and the config have been initialised:
  the two promises awaited first have resolved.
\<close>

definition setTarget ::
  "validation \<Rightarrow> string option \<Rightarrow> error option \<Rightarrow> json \<Rightarrow> bool option \<Rightarrow> device_state
     \<Rightarrow> error option \<times> device_state" where
  "setTarget v apiEndpoint txOutcome target localSource st =
     (let localSource = (case localSource of None \<Rightarrow> False | Some b \<Rightarrow> b);
          st1 = st\<lparr>failedUpdates := 0\<rparr>
      in case validateState v target of
           Some err \<Rightarrow> (Some err, st1)
         | None \<Rightarrow>
             let st2 = st1\<lparr>emitted := emitted st1 @ [TargetStateChanged target]\<rparr>;
                 st3 = st2\<lparr>transactions := Suc (transactions st2)\<rparr>;
                 local = getProp target ''local'';
                 source = (case apiEndpoint of
                             None \<Rightarrow> ''local''
                           | Some ep \<Rightarrow> if localSource \<or> ep = '''' then ''local'' else ep)
             in case txOutcome of
                  Some err \<Rightarrow> (Some err, st3)
                | None \<Rightarrow>
                    (None, st3\<lparr>store := Some \<lparr>t_name = getProp local ''name'',
                                  t_config = getProp local ''config'', t_apps = getProp local ''apps'',
                                  t_dependent = getProp target ''dependent'',
                                  t_source = source\<rparr>\<rparr>))"

section \<open>device-state.ts: the health check\<close>

text \<open>What \<open>healthcheck\<close> reads outside the module: the config value \<open>unmanaged\<close>, the
  clock, and the two counters of the application manager.\<close>

record health_env =
  unmanaged :: bool
  now :: hrtime
  fetchesInProgress :: int
  timeSpentFetching :: rat

definition hrtime_ns :: "hrtime \<Rightarrow> int" where
  "hrtime_ns t = fst t * 1000000000 + snd t"

text \<open>\<open>process.hrtime(prev)\<close>: the difference to an earlier reading, again as a pair.\<close>

definition hrtime_since :: "hrtime \<Rightarrow> hrtime \<Rightarrow> hrtime" where
  "hrtime_since t prev =
     (let d = hrtime_ns t - hrtime_ns prev in (d div 1000000000, d mod 1000000000))"

definition cycleTimeMs :: "health_env \<Rightarrow> device_state \<Rightarrow> rat" where
  "cycleTimeMs e st =
     (let cycleTime = hrtime_since (now e) (lastApplyStart st)
      in of_int (fst cycleTime) * 1000 + of_int (snd cycleTime) / 1000000)"

definition cycleTimeWithinInterval :: "health_env \<Rightarrow> device_state \<Rightarrow> bool" where
  "cycleTimeWithinInterval e st \<longleftrightarrow>
     cycleTimeMs e st - timeSpentFetching e < 2 * maxPollTime st"

definition healthcheck :: "health_env \<Rightarrow> device_state \<Rightarrow> bool \<times> device_state" where
  "healthcheck e st =
     (if unmanaged e then (True, st)
      else
        let applyTargetHealthy =
              (\<not> applyInProgress st \<or> fetchesInProgress e > 0 \<or> cycleTimeWithinInterval e st)
        in (applyTargetHealthy,
            if \<not> applyTargetHealthy
            then logAt LogInfo
                   (HealthcheckFailure (\<not> applyInProgress st) (fetchesInProgress e > 0)
                      (cycleTimeWithinInterval e st)) st
            else st))"

text \<open>The time between the two clock readings, in milliseconds.\<close>

definition elapsedMs :: "health_env \<Rightarrow> device_state \<Rightarrow> rat" where
  "elapsedMs e st = of_int (hrtime_ns (now e) - hrtime_ns (lastApplyStart st)) / 1000000"

text \<open>A device an hour into an apply, with a poll time of one second.\<close>

definition stuck_state :: device_state where
  "stuck_state = initial_state\<lparr>applyInProgress := True, maxPollTime := 1000\<rparr>"

section \<open>device-state.ts: the backoff after a failed apply\<close>

text \<open>The object spread \<open>{...a, ...b}\<close> on objects given by their properties in order.\<close>

definition spread :: "(string \<times> json) list \<Rightarrow> (string \<times> json) list \<Rightarrow> (string \<times> json) list"
  where
  "spread a b =
     map (\<lambda>kv. case map_of b (fst kv) of Some v \<Rightarrow> (fst kv, v) | None \<Rightarrow> kv) a
       @ filter (\<lambda>kv. fst kv \<notin> set (map fst a)) b"

definition reportCurrentState :: "(string \<times> json) list \<Rightarrow> device_state \<Rightarrow> device_state" where
  "reportCurrentState newState st =
     emitAsync Change (st\<lparr>currentVolatile := spread (currentVolatile st) newState\<rparr>)"

text \<open>
  \<open>triggerApplyTarget\<close>, up to the point where the timer is set: what follows the timer
  runs later. It returns the error it throws, or \<open>None\<close>.
\<close>

definition triggerApplyTarget ::
  "bool \<Rightarrow> rat \<Rightarrow> bool \<Rightarrow> bool \<Rightarrow> device_state \<Rightarrow> error option \<times> device_state" where
  "triggerApplyTarget force delay initial isFromApi st =
     (if applyInProgress st then
        (let replaced =
               st\<lparr>scheduledApply := Some \<lparr>s_force = force, s_delay = Some delay\<rparr>,
                  delayCancelled := (delayCancelled st \<or> (isFromApi \<and> cancelDelay st))\<rparr>
         in case scheduledApply st of
              None \<Rightarrow> (None, replaced)
            | Some sa \<Rightarrow>
                if isFromApi \<and> cancelDelay st then (None, replaced)
                else
                  (case s_delay sa of
                     None \<Rightarrow>
                       (Some (InternalInconsistencyError
                                ''No delay specified in scheduledApply''),
                        logAt LogDebug InvalidDelay st)
                   | Some d \<Rightarrow>
                       (None, st\<lparr>scheduledApply :=
                                  Some \<lparr>s_force = (if \<not> s_force sa then force else s_force sa),
                                       s_delay = Some (max delay d)\<rparr>\<rparr>)))
      else
        (None, st\<lparr>applyCancelled := False, applyInProgress := True,
                 pendingApply := Some \<lparr>p_delay = delay, p_force = force, p_initial = initial\<rparr>,
                 cancelDelay := True\<rparr>))"

text \<open>
  \<open>applyError\<close>, with the constant \<open>backoffIncrement\<close> of \<open>lib/constants\<close>. It returns the
  error it throws, or \<open>None\<close>.
\<close>

definition applyError ::
  "rat \<Rightarrow> error \<Rightarrow> bool \<Rightarrow> bool \<Rightarrow> bool \<Rightarrow> device_state \<Rightarrow> error option \<times> device_state" where
  "applyError backoffIncrement err force initial intermediate st =
     (let st1 = emitAsync (ApplyTargetStateEnd (Some err))
                  (emitAsync (ApplyTargetStateError err) st)
      in if intermediate then (Some err, st1)
         else
           let st2 = st1\<lparr>failedUpdates := failedUpdates st1 + 1\<rparr>;
               st3 = reportCurrentState [(''update_failed'', JBool True)] st2
           in if scheduledApply st3 \<noteq> None then
                (None, if \<not> isUpdatesLockedError err
                       then logAt LogError (UpdatingFailedAnotherScheduled err) st3
                       else st3)
              else
                let delay = min (2 ^ failedUpdates st3 * backoffIncrement) (maxPollTime st3);
                    st4 = (if isUpdatesLockedError err
                           then logAt LogInfo (UpdatesLockedRetrying delay)
                                  (perform (SystemMessageLocked (UpdatesLockedRetrying delay)) st3)
                           else logAt LogError (SchedulingAnotherAttempt delay err) st3)
                in triggerApplyTarget force delay initial False st4)"

text \<open>The listener the module installs for \<open>apply-target-state-end\<close>.\<close>

definition onApplyTargetStateEnd :: "error option \<Rightarrow> device_state \<Rightarrow> device_state" where
  "onApplyTargetStateEnd err st =
     (case err of
        Some e \<Rightarrow> if \<not> isUpdatesLockedError e then logAt LogError (DeviceStateApplyError e) st
                  else st
      | None \<Rightarrow> logAt LogSuccess DeviceStateApplySuccess st)"

text \<open>A device in the middle of an apply that has another apply scheduled already.\<close>

definition busy_state :: device_state where
  "busy_state = initial_state\<lparr>applyInProgress := True,
     scheduledApply := Some \<lparr>s_force = False, s_delay = Some 0\<rparr>\<rparr>"

section \<open>device-state.ts: reboot and shutdown\<close>












section \<open>The routes of the device API\<close>









section \<open>device-api/v2.ts: the data the handlers work on\<close>

text \<open>
  A service as the service manager reports it, an image as \<open>images.getStatus\<close> reports
  it, an application with its services and the names of its volumes, and a row of the
  database table \<open>app\<close> (its \<open>appId\<close> as \<open>parseInt\<close> reads it). Optional properties are
  options.
\<close>

record service =
  s_appId :: int
  s_imageId :: "int option"
  s_serviceId :: "int option"
  s_serviceName :: "string option"
  s_containerId :: "string option"
  s_status :: "string option"
  s_createdAt :: "string option"

record image =
  i_name :: string
  i_appId :: int
  i_serviceName :: string
  i_imageId :: int
  i_dockerImageId :: "string option"
  i_status :: string
  i_downloadProgress :: "rat option"
  i_releaseId :: int

record app =
  a_services :: "service list"
  a_volumes :: "string list"

record db_app =
  d_appId :: int
  d_commit :: string
  d_name :: string

text \<open>A composition step as \<open>generateStep\<close> builds it: the action and the arguments.\<close>

record step =
  stepAction :: string
  stepCurrent :: "service option"
  stepTarget :: "service option"
  stepWait :: "bool option"

definition generateStep :: "string \<Rightarrow> service \<Rightarrow> service option \<Rightarrow> bool \<Rightarrow> step" where
  "generateStep action cur tgt w =
     \<lparr>stepAction = action, stepCurrent = Some cur, stepTarget = tgt, stepWait = Some w\<rparr>"

text \<open>
  The request: the path parameter \<open>appId\<close>, the properties of the body, the query, and
  the scope test \<open>req.auth.isScoped\<close>, here on the list of applications it is asked about.
\<close>

record request =
  appIdParam :: string
  bodyImageId :: "int option"
  bodyServiceName :: "string option"
  bodyForce :: "bool option"
  queryServiceName :: "string option"
  queryService :: "string option"
  isScoped :: "int list \<Rightarrow> bool"

text \<open>
  What the handlers call and read. \<open>checkInt\<close> and the messages belong to \<open>lib/validation\<close>
  and \<open>lib/messages\<close>; the lookups answer with a value or with the error they reject
  with; the executor and the two helpers of \<open>device-api/common\<close> work on a state of their
  own, of any type, and return the error they reject with, if any.
\<close>

record 'w api_env =
  checkInt :: "string \<Rightarrow> int option"
  appNotFoundMessage :: string
  serviceNotFoundMessage :: string
  v2ServiceEndpointInputErrorMessage :: string
  getCurrentApps :: "error + (int \<times> app) list"
  getApp :: "int \<Rightarrow> error + app"
  executeStep :: "step \<Rightarrow> bool option \<Rightarrow> 'w \<Rightarrow> error option \<times> 'w"
  doPurge :: "int \<Rightarrow> bool option \<Rightarrow> 'w \<Rightarrow> error option \<times> 'w"
  doRestart :: "int \<Rightarrow> bool option \<Rightarrow> 'w \<Rightarrow> error option \<times> 'w"
  getStatus :: "error + (int \<times> json) list"
  getCommitForApp :: "int option \<Rightarrow> string option"
  serviceManagerGetAll :: "service list"
  serviceManagerGetStatus :: "service list"
  imagesGetStatus :: "image list"
  dbApps :: "db_app list"
  getTargetApps :: "(int \<times> app) list"

text \<open>
  The body of a response: \<open>{status: 'failed', message}\<close> with a fixed message or with a
  message that ends in an application id, a text, or the state of one application (its
  commit and the entries of \<open>local\<close>). A handler either responds with a status and a body
  or passes an error to \<open>next\<close>.
\<close>

datatype body =
    Failed string
  | FailedWithId string int
  | Text string
  | AppState "string option" "(int \<times> json) list"

datatype outcome = Responded nat body | Next error

text \<open>The calls a handler makes, in order.\<close>

datatype api_call =
    IsScoped "int list"
  | GetCurrentApps
  | GetApp int
  | SetTargetVolatileForService "int option" bool
  | ExecuteStep step "bool option"
  | DoPurge int "bool option"
  | DoRestart int "bool option"
  | GetStatus
  | GetCommitForApp int

text \<open>\<open>!appId\<close> for the result of \<open>checkInt\<close>: no number, or zero.\<close>

fun falsyId :: "int option \<Rightarrow> bool" where
  "falsyId None = True"
| "falsyId (Some i) = (i = 0)"

section \<open>device-api/v2.ts: the handlers of the actions on an application\<close>

text \<open>
  \<open>_.find(services, {imageId})\<close> and \<open>_.find(services, {serviceName})\<close>. In
  \<open>handleServiceAction\<close> the two lookups of \<open>Promise.all\<close> are both started; when both
  fail, the error of the first is the one passed on.
\<close>

definition findService :: "int option \<Rightarrow> string option \<Rightarrow> service list \<Rightarrow> service option" where
  "findService imageId serviceName services =
     (if imageId \<noteq> None then find (\<lambda>s. s_imageId s = imageId) services
      else find (\<lambda>s. s_serviceName s = serviceName) services)"

definition handleServiceAction ::
  "'w api_env \<Rightarrow> string \<Rightarrow> request \<Rightarrow> 'w \<Rightarrow> outcome \<times> api_call list \<times> 'w" where
  "handleServiceAction env action req w =
     (case checkInt env (appIdParam req) of
        None \<Rightarrow> (Responded 400 (Failed ''Missing app id''), [], w)
      | Some appId \<Rightarrow>
          if appId = 0 then (Responded 400 (Failed ''Missing app id''), [], w)
          else if \<not> isScoped req [appId]
          then (Responded 401 (Failed ''Application is not available''), [IsScoped [appId]], w)
          else
            let cs = [IsScoped [appId], GetCurrentApps, GetApp appId]
            in case getCurrentApps env of
                 Inl err \<Rightarrow> (Next err, cs, w)
               | Inr apps \<Rightarrow>
                   (case getApp env appId of
                      Inl err \<Rightarrow> (Next err, cs, w)
                    | Inr targetApp \<Rightarrow>
                        (case map_of apps appId of
                           None \<Rightarrow> (Responded 404 (Text (appNotFoundMessage env)), cs, w)
                         | Some app \<Rightarrow>
                             if bodyImageId req = None \<and> bodyServiceName req = None
                             then (Next (Error (v2ServiceEndpointInputErrorMessage env)), cs, w)
                             else
                               (case findService (bodyImageId req) (bodyServiceName req)
                                       (a_services app) of
                                  None \<Rightarrow>
                                    (Responded 404 (Text (serviceNotFoundMessage env)), cs, w)
                                | Some svc \<Rightarrow>
                                    let targetService =
                                          findService (bodyImageId req) (bodyServiceName req)
                                            (a_services targetApp);
                                        stp = generateStep action svc targetService True;
                                        cs' = cs @ [SetTargetVolatileForService (s_imageId svc)
                                                      (action \<noteq> ''stop''),
                                                    ExecuteStep stp (bodyForce req)]
                                    in case executeStep env stp (bodyForce req) w of
                                         (Some err, w') \<Rightarrow> (Next err, cs', w')
                                       | (None, w') \<Rightarrow>
                                           (Responded 200 (Text ''OK''), cs', w')))))"

definition purge :: "'w api_env \<Rightarrow> request \<Rightarrow> 'w \<Rightarrow> outcome \<times> api_call list \<times> 'w" where
  "purge env req w =
     (case checkInt env (appIdParam req) of
        None \<Rightarrow> (Responded 400 (Failed ''Missing app id''), [], w)
      | Some appId \<Rightarrow>
          if appId = 0 then (Responded 400 (Failed ''Missing app id''), [], w)
          else if \<not> isScoped req [appId]
          then (Responded 401 (Failed ''Application is not available''), [IsScoped [appId]], w)
          else
            (case doPurge env appId (bodyForce req) w of
               (Some err, w') \<Rightarrow>
                 (Next err, [IsScoped [appId], DoPurge appId (bodyForce req)], w')
             | (None, w') \<Rightarrow>
                 (Responded 200 (Text ''OK''),
                  [IsScoped [appId], DoPurge appId (bodyForce req)], w')))"

definition restart :: "'w api_env \<Rightarrow> request \<Rightarrow> 'w \<Rightarrow> outcome \<times> api_call list \<times> 'w" where
  "restart env req w =
     (case checkInt env (appIdParam req) of
        None \<Rightarrow> (Responded 400 (Failed ''Missing app id''), [], w)
      | Some appId \<Rightarrow>
          if appId = 0 then (Responded 400 (Failed ''Missing app id''), [], w)
          else if \<not> isScoped req [appId]
          then (Responded 401 (Failed ''Application is not available''), [IsScoped [appId]], w)
          else
            (case doRestart env appId (bodyForce req) w of
               (Some err, w') \<Rightarrow>
                 (Next err, [IsScoped [appId], DoRestart appId (bodyForce req)], w')
             | (None, w') \<Rightarrow>
                 (Responded 200 (Text ''OK''),
                  [IsScoped [appId], DoRestart appId (bodyForce req)], w')))"

text \<open>\<open>GET /v2/applications/:appId/state\<close>. The scope test after the 409 cannot fail.\<close>

definition applicationState :: "'w api_env \<Rightarrow> request \<Rightarrow> outcome \<times> api_call list" where
  "applicationState env req =
     (case checkInt env (appIdParam req) of
        None \<Rightarrow> (Responded 400 (Failed (''Invalid application ID: '' @ appIdParam req)), [])
      | Some appId \<Rightarrow>
          if appId = 0
          then (Responded 400 (Failed (''Invalid application ID: '' @ appIdParam req)), [])
          else
            (case getStatus env of
               Inl err \<Rightarrow>
                 (Responded 500
                    (FailedWithId ''Unable to retrieve state for application ID: '' appId),
                  [GetStatus])
             | Inr localApps \<Rightarrow>
                 if map_of localApps appId = None
                 then (Responded 409 (FailedWithId ''Application ID does not exist: '' appId),
                       [GetStatus])
                 else if \<not> isScoped req [appId]
                 then (Responded 409 (FailedWithId ''Application ID does not exist: '' appId),
                       [GetStatus, IsScoped [appId]])
                 else
                   (Responded 200
                      (AppState (getCommitForApp env (Some appId))
                         (filter (\<lambda>kv. fst kv = appId) localApps)),
                    [GetStatus, IsScoped [appId], IsScoped [appId], GetCommitForApp appId])))"

section \<open>device-api/v2.ts: the listing endpoints\<close>

text \<open>The listings are given for the case that the services, images, rows and target
  applications have been read; each handler answers from what has been read.\<close>

text \<open>\<open>GET /v2/state/status\<close>; \<open>pending\<close> is \<open>deviceState.isApplyInProgress()\<close>.\<close>

record status_response =
  r_appState :: string
  r_overallDownloadProgress :: "rat option"
  r_containers :: "service list"
  r_images :: "image list"
  r_release :: "string option"

definition stateStatus :: "'w api_env \<Rightarrow> request \<Rightarrow> bool \<Rightarrow> nat \<times> status_response" where
  "stateStatus env req pending =
     (let containerStates = filter (\<lambda>s. isScoped req [s_appId s]) (serviceManagerGetAll env);
          imagesStates = filter (\<lambda>i. isScoped req [i_appId i]) (imagesGetStatus env);
          appIds = map s_appId containerStates @ map i_appId imagesStates;
          progress = concat (map (\<lambda>i. case i_downloadProgress i of None \<Rightarrow> [] | Some p \<Rightarrow> [p])
                               imagesStates);
          downloads = length progress;
          overallDownloadProgress =
            (if downloads > 0 then Some (sum_list progress / of_nat downloads) else None);
          appId = (case appIds of [] \<Rightarrow> None | a # rest \<Rightarrow> Some a);
          commit = getCommitForApp env appId
      in (200,
          \<lparr>r_appState = (if pending then ''applying'' else ''applied''),
           r_overallDownloadProgress = overallDownloadProgress,
           r_containers = filter (\<lambda>c. Some (s_appId c) = appId) containerStates,
           r_images = filter (\<lambda>i. Some (i_appId i) = appId) imagesStates,
           r_release = commit\<rparr>))"

text \<open>\<open>GET /v2/containerId\<close>: the container of the named service, or the containers of all
  services by name, where a later service of the same name replaces an earlier one.\<close>

datatype container_response =
    ContainerId "string option"
  | CouldNotFindService
  | ContainerIds "(string option \<times> string option) list"

definition falsyName :: "string option \<Rightarrow> bool" where
  "falsyName n = (n = None \<or> n = Some '''')"

definition keyBy :: "('k \<times> 'v) list \<Rightarrow> ('k \<times> 'v) list" where
  "keyBy kvs = fold (\<lambda>kv acc. AList.update (fst kv) (snd kv) acc) kvs []"

definition containerId :: "'w api_env \<Rightarrow> request \<Rightarrow> nat \<times> container_response" where
  "containerId env req =
     (let services = filter (\<lambda>s. isScoped req [s_appId s]) (serviceManagerGetAll env)
      in if queryServiceName req \<noteq> None \<or> queryService req \<noteq> None then
           (let serviceName = (if falsyName (queryServiceName req) then queryService req
                               else queryServiceName req)
            in case find (\<lambda>svc. s_serviceName svc = serviceName) services of
                 Some svc \<Rightarrow> (200, ContainerId (s_containerId svc))
               | None \<Rightarrow> (503, CouldNotFindService))
         else
           (200, ContainerIds (keyBy (map (\<lambda>s. (s_serviceName s, s_containerId s)) services))))"

text \<open>\<open>GET /v2/applications/state\<close>: the response is keyed by the name of the application,
  each entry by the name of the service of an image.\<close>

record service_entry =
  e_status :: "string option"
  e_releaseId :: int
  e_downloadProgress :: "rat option"

record app_entry =
  e_appId :: int
  e_commit :: string
  e_services :: "(string \<times> service_entry) list"

definition truthyStatus :: "string option \<Rightarrow> bool" where
  "truthyStatus s = (s \<noteq> None \<and> s \<noteq> Some '''')"

definition truthyProgress :: "rat option \<Rightarrow> rat option" where
  "truthyProgress p = (if p = Some 0 then None else p)"

definition addImage ::
  "service list \<Rightarrow> image \<Rightarrow> (int \<times> string) list \<times> (string \<times> app_entry) list
     \<Rightarrow> (int \<times> string) list \<times> (string \<times> app_entry) list" where
  "addImage services img acc =
     (case map_of (fst acc) (i_appId img) of
        None \<Rightarrow> acc
      | Some appName \<Rightarrow>
          let svc = find (\<lambda>s. s_imageId s = Some (i_imageId img)) services;
              status = (case svc of
                          None \<Rightarrow> Some (i_status img)
                        | Some s \<Rightarrow> if truthyStatus (s_status s) then s_status s
                                    else Some (i_status img));
              entry = \<lparr>e_status = status, e_releaseId = i_releaseId img,
                       e_downloadProgress = truthyProgress (i_downloadProgress img)\<rparr>
          in (fst acc,
              map (\<lambda>ne. if fst ne = appName
                         then (fst ne, (snd ne)\<lparr>e_services :=
                                 AList.update (i_serviceName img) entry (e_services (snd ne))\<rparr>)
                         else ne) (snd acc)))"

definition addApp ::
  "db_app \<Rightarrow> (int \<times> string) list \<times> (string \<times> app_entry) list
     \<Rightarrow> (int \<times> string) list \<times> (string \<times> app_entry) list" where
  "addApp a acc =
     (AList.update (d_appId a) (d_name a) (fst acc),
      AList.update (d_name a) \<lparr>e_appId = d_appId a, e_commit = d_commit a, e_services = []\<rparr>
        (snd acc))"

definition applicationsState :: "'w api_env \<Rightarrow> request \<Rightarrow> nat \<times> (string \<times> app_entry) list" where
  "applicationsState env req =
     (let acc = fold addApp (filter (\<lambda>a. isScoped req [d_appId a]) (dbApps env)) ([], []);
          acc' = fold (addImage (serviceManagerGetStatus env))
                   (filter (\<lambda>img. isScoped req [i_appId img]) (imagesGetStatus env)) acc
      in (200, snd acc'))"

text \<open>\<open>GET /v2/cleanup-volumes\<close>: the volumes handed to \<open>removeOrphanedVolumes\<close> as
  referenced, each named by its application and its name in it.\<close>

definition cleanupVolumes :: "'w api_env \<Rightarrow> request \<Rightarrow> nat \<times> (int \<times> string) list" where
  "cleanupVolumes env req =
     (200,
      concat (map (\<lambda>kv. if \<not> isScoped req [fst kv] then []
                         else map (\<lambda>volumeName. (fst kv, volumeName)) (a_volumes (snd kv)))
                (getTargetApps env)))"

section \<open>The step executor\<close>

text \<open>
  Modelled from the spec: the step executor, \<open>executeStep\<close> of the application manager
  with the executors of the composition steps, is not among the sources. By section 4.5
  of the specification each step is wrapped in a \<open>lock(appId, {force}, thunk)\<close> call
  unless its action is on the list of the actions that are always free of the lock:
  \<open>fetch\<close>, \<open>updateMetadata\<close>, \<open>noop\<close> and the \<open>start\<close> of the control API. The thunk
  \<open>run\<close> is what the step does to the container runtime, with its outcome; the
  application is the one of the step's current service.
\<close>

definition lockFreeActions :: "string list" where
  "lockFreeActions = [''fetch'', ''updateMetadata'', ''noop'', ''start'']"

definition executeStepSpec ::
  "(step \<Rightarrow> lock_state \<Rightarrow> error option \<times> lock_state) \<Rightarrow> step \<Rightarrow> bool option \<Rightarrow> lock_state
     \<Rightarrow> error option \<times> lock_state" where
  "executeStepSpec run stp force w =
     (if stepAction stp \<in> set lockFreeActions then run stp w
      else lock (map_option s_appId (stepCurrent stp)) (force = Some True) (run stp) w)"

section \<open>A device to run the handlers on\<close>

text \<open>
  Application 1658654 runs the service \<open>main\<close> of image 11; application 222222 runs the
  service \<open>other\<close> of image 22 and has the volume \<open>data\<close>. \<open>checkInt\<close> reads the ids of
  the two applications, \<open>9000\<close> and \<open>0\<close>. The runtime does what \<open>run\<close> says, and the
  status of the device cannot be retrieved.
\<close>

definition main_service :: service where
  "main_service = \<lparr>s_appId = 1658654, s_imageId = Some 11, s_serviceId = Some 640681,
     s_serviceName = Some ''main'', s_containerId = Some ''abc123'',
     s_status = Some ''Running'', s_createdAt = None\<rparr>"

definition other_service :: service where
  "other_service = \<lparr>s_appId = 222222, s_imageId = Some 22, s_serviceId = Some 2,
     s_serviceName = Some ''other'', s_containerId = Some ''def456'',
     s_status = Some ''Running'', s_createdAt = None\<rparr>"

definition main_image :: image where
  "main_image = \<lparr>i_name = ''registry/main'', i_appId = 1658654, i_serviceName = ''main'',
     i_imageId = 11, i_dockerImageId = None, i_status = ''Downloaded'',
     i_downloadProgress = None, i_releaseId = 1\<rparr>"

definition other_image :: image where
  "other_image = \<lparr>i_name = ''registry/other'', i_appId = 222222, i_serviceName = ''other'',
     i_imageId = 22, i_dockerImageId = None, i_status = ''Downloaded'',
     i_downloadProgress = None, i_releaseId = 2\<rparr>"

definition device_env ::
  "(step \<Rightarrow> lock_state \<Rightarrow> error option \<times> lock_state) \<Rightarrow> lock_state api_env" where
  "device_env run =
     \<lparr>checkInt = (\<lambda>s. if s = ''1658654'' then Some 1658654
                       else if s = ''222222'' then Some 222222
                       else if s = ''9000'' then Some 9000
                       else if s = ''0'' then Some 0 else None),
      appNotFoundMessage = ''App not found'',
      serviceNotFoundMessage = ''Service not found'',
      v2ServiceEndpointInputErrorMessage = ''imageId or serviceName needed'',
      getCurrentApps = Inr [(1658654, \<lparr>a_services = [main_service], a_volumes = []\<rparr>),
                            (222222, \<lparr>a_services = [other_service], a_volumes = [''data'']\<rparr>)],
      getApp = (\<lambda>a. if a = 1658654 then Inr \<lparr>a_services = [main_service], a_volumes = []\<rparr>
                     else if a = 222222
                     then Inr \<lparr>a_services = [other_service], a_volumes = [''data'']\<rparr>
                     else Inr \<lparr>a_services = [], a_volumes = []\<rparr>),
      executeStep = executeStepSpec run,
      doPurge = (\<lambda>a f w. (None, w)),
      doRestart = (\<lambda>a f w. (None, w)),
      getStatus = Inl (Error ''docker is not available''),
      getCommitForApp = (\<lambda>a. None),
      serviceManagerGetAll = [main_service, other_service],
      serviceManagerGetStatus = [main_service, other_service],
      imagesGetStatus = [main_image, other_image],
      dbApps = [\<lparr>d_appId = 1658654, d_commit = ''abc'', d_name = ''one''\<rparr>,
                \<lparr>d_appId = 222222, d_commit = ''def'', d_name = ''two''\<rparr>],
      getTargetApps = [(1658654, \<lparr>a_services = [main_service], a_volumes = []\<rparr>),
                       (222222, \<lparr>a_services = [other_service], a_volumes = [''data'']\<rparr>)]\<rparr>"

text \<open>
  Modelled from the spec: the scope test of a key, which \<open>lib/api-keys\<close> defines and
  which is not among the sources. By section 4.8 of the specification
  \<open>isScoped({apps: [id]})\<close> is true iff the scope of the key is \<open>*\<close> or includes \<open>id\<close>;
  for a key scoped to the application \<open>A\<close> alone it holds of the lists within \<open>{A}\<close>.
\<close>

definition scopedTo :: "int \<Rightarrow> int list \<Rightarrow> bool" where
  "scopedTo A ids \<longleftrightarrow> set ids \<subseteq> {A}"

definition request_for :: "string \<Rightarrow> int \<Rightarrow> request" where
  "request_for param A = \<lparr>appIdParam = param, bodyImageId = None,
     bodyServiceName = Some ''main'', bodyForce = None, queryServiceName = None,
     queryService = None, isScoped = scopedTo A\<rparr>"

definition start_main_step :: step where
  "start_main_step = \<lparr>stepAction = ''start'', stepCurrent = Some main_service,
     stepTarget = Some main_service, stepWait = Some True\<rparr>"

text \<open>Two runtimes: one that starts every container, one that fails to.\<close>

definition run_ok :: "step \<Rightarrow> lock_state \<Rightarrow> error option \<times> lock_state" where
  "run_ok stp w = (None, w)"

definition run_failing :: "step \<Rightarrow> lock_state \<Rightarrow> error option \<times> lock_state" where
  "run_failing stp w = (Some (Error ''container failed to start''), w)"

text \<open>A host on which the service \<open>main\<close> of application 1658654 holds its update lock.\<close>

definition host_c :: lock_state where
  "host_c = \<lparr>files = {(1658654, ''main'', ''updates.lock'')}, dirs = {(1658654, ''main'')},
          readdirResult = (\<lambda>a. if a = 1658654 then Inr [''main'']
                                else Inl (SysError ENOENT (errText ENOENT))),
          locksTaken = [], calls = []\<rparr>"

text \<open>How the handlers of the actions on an application turn down a request for an
  application that is not in scope: 400 with nothing called when the id is zero,
  otherwise 401 after the scope test.\<close>

definition rejected :: "int \<Rightarrow> 'w \<Rightarrow> outcome \<times> api_call list \<times> 'w" where
  "rejected B w =
     (if B = 0 then (Responded 400 (Failed ''Missing app id''), [], w)
      else (Responded 401 (Failed ''Application is not available''), [IsScoped [B]], w))"

text \<open>The same device with one more service in the list of \<open>serviceManager.getStatus\<close>:
  a service of application 222222 that carries the id of the image of \<open>main\<close>.\<close>

definition stray_service :: service where
  "stray_service = \<lparr>s_appId = 222222, s_imageId = Some 11, s_serviceId = Some 3,
     s_serviceName = Some ''stray'', s_containerId = Some ''fed789'',
     s_status = Some ''Stopping'', s_createdAt = None\<rparr>"

definition stray_env :: "lock_state api_env" where
  "stray_env = (device_env run_ok)\<lparr>serviceManagerGetStatus :=
     [stray_service, main_service, other_service]\<rparr>"

text \<open>A device that holds application 1658654 alone.\<close>

definition single_env :: "lock_state api_env" where
  "single_env = (device_env run_ok)\<lparr>serviceManagerGetStatus := [main_service],
     imagesGetStatus := [main_image],
     dbApps := [\<lparr>d_appId = 1658654, d_commit = ''abc'', d_name = ''one''\<rparr>]\<rparr>"

chapter \<open>Properties\<close>

section \<open>Advisory update locks\<close>

lemma acquired_append: "acquired (xs @ ys) = acquired xs @ acquired ys"
  by (induction xs rule: acquired.induct) auto


lemma writeLock_sel:
  "locksTaken (writeLock a st) = locksTaken st"
  "calls (writeLock a st) = calls st @ [WriteLocked a]"
  "files (writeLock a st) = files st"
  "dirs (writeLock a st) = dirs st"
  "readdirResult (writeLock a st) = readdirResult st"
  by (simp_all add: writeLock_def)

lemma disposeKey_sel:
  "locksTaken (disposeKey k st) = removeAll k (locksTaken st)"
  "calls (disposeKey k st) = calls st @ [Unlocked k]"
  "files (disposeKey k st) = files st - {k}"
  "dirs (disposeKey k st) = dirs st"
  "readdirResult (disposeKey k st) = readdirResult st"
  by (simp_all add: disposeKey_def unlockAsync_def)

lemma fold_disposeKey:
  "locksTaken (fold disposeKey ks st) = filter (\<lambda>k. k \<notin> set ks) (locksTaken st)
   \<and> calls (fold disposeKey ks st) = calls st @ map Unlocked ks
   \<and> files (fold disposeKey ks st) = files st - set ks
   \<and> dirs (fold disposeKey ks st) = dirs st
   \<and> readdirResult (fold disposeKey ks st) = readdirResult st"
proof (induction ks arbitrary: st)
  case Nil
  then show ?case by simp
next
  case (Cons k ks)
  have "filter (\<lambda>x. x \<notin> set ks) (removeAll k xs)
        = filter (\<lambda>x. x \<noteq> k \<and> x \<notin> set ks) xs" for xs
    by (induction xs) auto
  then show ?case
    by (auto simp: Cons disposeKey_sel)
qed

text \<open>What \<open>dispose\<close> leaves behind: an empty registry, one unlock per key in the order
  of the registry, then the release of the writer lock.\<close>

lemma dispose_facts:
  "locksTaken (dispose a s) = []"
  "calls (dispose a s) = calls s @ map Unlocked (locksTaken s) @ [Released a]"
  "files (dispose a s) = files s - set (locksTaken s)"
  by (simp_all add: dispose_def release_def fold_disposeKey)

lemma takeLockFiles_append:
  "takeLockFiles force (ps @ qs) st =
     (case takeLockFiles force ps st of
        (Some err, st') \<Rightarrow> (Some err, st')
      | (None, st') \<Rightarrow> takeLockFiles force qs st')"
  by (induction ps arbitrary: st) (auto split: prod.splits option.splits)

text \<open>The two nested loops take the lock files of all services in one sequence, and the
  first failure ends it.\<close>

lemma takeServices_flat:
  "takeServices force a names st =
     (case takeLockFiles force (concat (map (lockFilesOnHost a) names)) st of
        (Some err, s) \<Rightarrow>
          (Some (UpdatesLockedError (''Updates are locked: '' @ message err)), dispose a s)
      | (None, s) \<Rightarrow> (None, s))"
  by (induction names arbitrary: st)
     (auto simp: takeLockFiles_append split: prod.splits option.splits)

lemma takeLockFile_trace:
  assumes "takeLockFile force p st = (r, st')"
  shows "\<exists>evs. calls st' = calls st @ evs
           \<and> locksTaken st' = fold register (acquired evs) (locksTaken st)
           \<and> set (acquired evs) \<subseteq> {p}
           \<and> (\<forall>e. r = Some e \<longrightarrow> e = SysError EEXIST (errText EEXIST) \<and> evs \<noteq> []
                  \<and> last evs = LockFailed p EEXIST)"
  using assms
  by (auto simp: takeLockFile_def lockAsync_def unlockAsync_def Let_def
           split: if_splits)

lemma takeLockFiles_trace:
  assumes "takeLockFiles force ps st = (r, st')"
  shows "\<exists>evs. calls st' = calls st @ evs
           \<and> locksTaken st' = fold register (acquired evs) (locksTaken st)
           \<and> set (acquired evs) \<subseteq> set ps
           \<and> (\<forall>e. r = Some e \<longrightarrow> e = SysError EEXIST (errText EEXIST)
                  \<and> (\<exists>p \<in> set ps. evs \<noteq> [] \<and> last evs = LockFailed p EEXIST))"
  using assms
proof (induction ps arbitrary: st)
  case Nil
  then show ?case by simp
next
  case (Cons p ps)
  obtain r1 s1 where t1: "takeLockFile force p st = (r1, s1)"
    by (cases "takeLockFile force p st")
  from takeLockFile_trace [OF t1] obtain ev1 where
    e1: "calls s1 = calls st @ ev1"
        "locksTaken s1 = fold register (acquired ev1) (locksTaken st)"
        "set (acquired ev1) \<subseteq> {p}"
        "\<forall>e. r1 = Some e \<longrightarrow> e = SysError EEXIST (errText EEXIST) \<and> ev1 \<noteq> []
             \<and> last ev1 = LockFailed p EEXIST"
    by blast
  show ?case
  proof (cases r1)
    case None
    with Cons.prems t1 have "takeLockFiles force ps s1 = (r, st')" by simp
    from Cons.IH [OF this] obtain ev2 where
      e2: "calls st' = calls s1 @ ev2"
          "locksTaken st' = fold register (acquired ev2) (locksTaken s1)"
          "set (acquired ev2) \<subseteq> set ps"
          "\<forall>e. r = Some e \<longrightarrow> e = SysError EEXIST (errText EEXIST)
                  \<and> (\<exists>p \<in> set ps. ev2 \<noteq> [] \<and> last ev2 = LockFailed p EEXIST)"
      by blast
    show ?thesis
      apply (rule exI [of _ "ev1 @ ev2"])
      using e1 e2 by (auto simp: acquired_append)
  next
    case (Some e)
    with Cons.prems t1 have "r = Some e" "st' = s1" by simp_all
    with e1 Some show ?thesis
      by (intro exI [of _ ev1]) auto
  qed
qed

lemma lock_fail_eq:
  assumes rd: "readLockDir a (writeLock a st) = Inr names"
      and acq: "takeLockFiles force (concat (map (lockFilesOnHost a) names)) (writeLock a st)
                  = (Some err, s)"
  shows "lock (Some a) force fn st =
           (Some (UpdatesLockedError (''Updates are locked: '' @ message err)), dispose a s)"
  using rd acq by (simp add: lock_def Let_def takeServices_flat)


lemma host_a_readdir: "readLockDir 7 (writeLock 7 host_a) = Inr [''a'', ''b'', ''gone'']"
  by (simp add: readLockDir_def writeLock_def host_a_def)

lemma host_a_acquire:
  "takeLockFiles False (concat (map (lockFilesOnHost 7) [''a'', ''b'', ''gone'']))
       (writeLock 7 host_a)
     = (Some (SysError EEXIST (errText EEXIST)), host_a_blocked)"
  by (simp add: lockFilesOnHost_def takeLockFile_def lockAsync_def writeLock_def host_a_def
        host_a_blocked_def register_def Let_def)



text \<open>
  Claim C2, as stated: when a lock file is already locked, the lock files acquired so far
  are released in reverse acquisition order. On \<open>host_a\<close> the two lock files of service
  \<open>a\<close> are taken, \<open>updates.lock\<close> first, before \<open>updates.lock\<close> of service \<open>b\<close> is found
  locked; they are unlocked in the order they were taken in, not in the reverse order.
\<close>

theorem lock_release_order_counterexample:
  "fst (lock (Some 7) False (\<lambda>s. (None, s)) host_a)
     = Some (UpdatesLockedError ''Updates are locked: EEXIST: file already exists'')
   \<and> acquired (calls (snd (lock (Some 7) False (\<lambda>s. (None, s)) host_a)))
     = [(7, ''a'', ''updates.lock''), (7, ''a'', ''resin-updates.lock'')]
   \<and> released (calls (snd (lock (Some 7) False (\<lambda>s. (None, s)) host_a)))
     = [(7, ''a'', ''updates.lock''), (7, ''a'', ''resin-updates.lock'')]
   \<and> released (calls (snd (lock (Some 7) False (\<lambda>s. (None, s)) host_a)))
     \<noteq> rev (acquired (calls (snd (lock (Some 7) False (\<lambda>s. (None, s)) host_a))))"
  by (simp add: lock_fail_eq [OF host_a_readdir host_a_acquire] dispose_facts
        host_a_blocked_def errText_def)

text \<open>
  Claim C2, amended: for every \<open>lock\<close> call with an application, if taking a lock file
  fails because it is already locked (the state \<open>s\<close> is the one the failure leaves), the
  thunk is not run and the call fails with \<open>UpdatesLockedError\<close> after \<open>dispose\<close>, whatever
  the thunk is; every lock file of the
  registry, which holds the files taken so far by this call after those other calls had
  put there, is unlocked, in the order of the registry (the order the files were taken
  in), the writer lock is released and the registry is empty. A lock file whose directory
  is missing (\<open>ENOENT\<close>) is passed over: nothing fails, nothing is created or recorded;
  and a missing lock directory of the application means that no lock file is taken and
  the thunk runs.
\<close>

theorem lock_updates_locked:
  "(readLockDir a (writeLock a st) = Inr names
      \<and> takeLockFiles force (concat (map (lockFilesOnHost a) names)) (writeLock a st)
          = (Some err, s)
    \<longrightarrow> err = SysError EEXIST (errText EEXIST)
      \<and> lock (Some a) force fn st
          = (Some (UpdatesLockedError (''Updates are locked: '' @ message err)), dispose a s)
      \<and> (\<exists>evs. calls s = calls st @ [WriteLocked a] @ evs
            \<and> locksTaken s = fold register (acquired evs) (locksTaken st))
      \<and> calls (snd (lock (Some a) force fn st))
          = calls s @ map Unlocked (locksTaken s) @ [Released a]
      \<and> files (snd (lock (Some a) force fn st)) = files s - set (locksTaken s)
      \<and> locksTaken (snd (lock (Some a) force fn st)) = [])
   \<and> ((fst p, fst (snd p)) \<notin> dirs s0
    \<longrightarrow> fst (takeLockFile force p s0) = None
      \<and> locksTaken (snd (takeLockFile force p s0)) = locksTaken s0
      \<and> files (snd (takeLockFile force p s0)) \<subseteq> files s0)
   \<and> (readdirResult st' a' = Inl (SysError ENOENT m)
    \<longrightarrow> lock (Some a') force fn st'
          = (fst (fn (writeLock a' st')), dispose a' (snd (fn (writeLock a' st')))))"
proof (intro conjI impI)
  assume h: "readLockDir a (writeLock a st) = Inr names
      \<and> takeLockFiles force (concat (map (lockFilesOnHost a) names)) (writeLock a st)
          = (Some err, s)"
  then have rd: "readLockDir a (writeLock a st) = Inr names"
    and acq: "takeLockFiles force (concat (map (lockFilesOnHost a) names)) (writeLock a st)
          = (Some err, s)"
    by simp_all
  from takeLockFiles_trace [OF acq] obtain evs where
    evs: "calls s = calls (writeLock a st) @ evs"
         "locksTaken s = fold register (acquired evs) (locksTaken (writeLock a st))"
         "err = SysError EEXIST (errText EEXIST)"
    by blast
  show "err = SysError EEXIST (errText EEXIST)" by (rule evs(3))
  show "\<exists>evs. calls s = calls st @ [WriteLocked a] @ evs
            \<and> locksTaken s = fold register (acquired evs) (locksTaken st)"
    using evs(1,2) by (auto simp: writeLock_sel)
  note eq = lock_fail_eq [OF rd acq, of fn]
  show "lock (Some a) force fn st
          = (Some (UpdatesLockedError (''Updates are locked: '' @ message err)), dispose a s)"
    by (rule eq)
  show "calls (snd (lock (Some a) force fn st))
          = calls s @ map Unlocked (locksTaken s) @ [Released a]"
    by (simp add: eq dispose_facts)
  show "files (snd (lock (Some a) force fn st)) = files s - set (locksTaken s)"
    by (simp add: eq dispose_facts)
  show "locksTaken (snd (lock (Some a) force fn st)) = []"
    by (simp add: eq dispose_facts)
next
  assume "(fst p, fst (snd p)) \<notin> dirs s0"
  then show "fst (takeLockFile force p s0) = None"
    and "locksTaken (snd (takeLockFile force p s0)) = locksTaken s0"
    and "files (snd (takeLockFile force p s0)) \<subseteq> files s0"
    by (auto simp: takeLockFile_def lockAsync_def unlockAsync_def Let_def)
next
  assume "readdirResult st' a' = Inl (SysError ENOENT m)"
  then have "readLockDir a' (writeLock a' st') = Inr []"
    by (simp add: readLockDir_def writeLock_sel)
  then show "lock (Some a') force fn st'
          = (fst (fn (writeLock a' st')), dispose a' (snd (fn (writeLock a' st'))))"
    by (simp add: lock_def Let_def split: prod.splits)
qed

theorem lock_updates_locked_witness:
  "fst (lock (Some 7) False (\<lambda>s. (None, s)) host_a)
     = Some (UpdatesLockedError ''Updates are locked: EEXIST: file already exists'')
   \<and> calls (snd (lock (Some 7) False (\<lambda>s. (None, s)) host_a))
     = [WriteLocked 7, Locked (7, ''a'', ''updates.lock''),
        Locked (7, ''a'', ''resin-updates.lock''),
        LockFailed (7, ''b'', ''updates.lock'') EEXIST,
        Unlocked (7, ''a'', ''updates.lock''), Unlocked (7, ''a'', ''resin-updates.lock''),
        Released 7]
   \<and> locksTaken (snd (lock (Some 7) False (\<lambda>s. (None, s)) host_a)) = []
   \<and> fst (takeLockFile False (7, ''gone'', ''updates.lock'') host_a) = None
   \<and> fst (lock (Some 8) False (\<lambda>s. (None, s)) host_a) = None"
proof -
  note t = lock_updates_locked [of 7 host_a "[''a'', ''b'', ''gone'']" False
      "SysError EEXIST (errText EEXIST)" host_a_blocked "\<lambda>s. (None, s)"
      "(7, ''gone'', ''updates.lock'')" host_a host_a 8 "errText ENOENT"]
  from t host_a_readdir host_a_acquire
  have e1: "lock (Some 7) False (\<lambda>s. (None, s)) host_a
      = (Some (UpdatesLockedError
                (''Updates are locked: '' @ message (SysError EEXIST (errText EEXIST)))),
         dispose 7 host_a_blocked)"
    by simp
  have "(7, ''gone'') \<notin> dirs host_a"
    by (simp add: host_a_def)
  with t have e2: "fst (takeLockFile False (7, ''gone'', ''updates.lock'') host_a) = None"
    by simp
  have "readdirResult host_a 8 = Inl (SysError ENOENT (errText ENOENT))"
    by (simp add: host_a_def)
  with t have e3: "lock (Some 8) False (\<lambda>s. (None, s)) host_a
      = (None, dispose 8 (writeLock 8 host_a))"
    by simp
  show ?thesis
    by (simp add: e1 e2 e3 dispose_facts host_a_blocked_def errText_def)
qed




section \<open>Validation of the target state\<close>

lemma setTarget_invalid:
  "validateState v target = Some err \<Longrightarrow>
     setTarget v apiEndpoint txOutcome target localSource st = (Some err, st\<lparr>failedUpdates := 0\<rparr>)"
  by (simp add: setTarget_def Let_def)

lemma validateLocalState_invalid:
  assumes "isNullish (getProp l ''apps'') \<or> isNullish (getProp l ''config'')
           \<or> \<not> isValidEnv v (getProp l ''config'')"
  shows "validateLocalState v l = Some (Error ''Invalid device name'')
         \<or> validateLocalState v l = Some (Error ''Invalid apps'')
         \<or> validateLocalState v l = Some (Error ''Invalid device configuration'')"
  using assms by (auto simp: validateLocalState_def)

lemma validateState_invalid:
  assumes "\<not> isObject (getProp target ''local'')
           \<or> isNullish (getProp (getProp target ''local'') ''apps'')
           \<or> isNullish (getProp (getProp target ''local'') ''config'')
           \<or> \<not> isValidEnv v (getProp (getProp target ''local'') ''config'')"
  shows "\<exists>msg. validateState v target = Some (Error msg)
           \<and> msg \<in> validationMessages"
proof (cases "isObject target \<and> isObject (getProp target ''local'')")
  case False
  then show ?thesis by (auto simp: validateState_def validationMessages_def)
next
  case True
  with assms have "isNullish (getProp (getProp target ''local'') ''apps'')
           \<or> isNullish (getProp (getProp target ''local'') ''config'')
           \<or> \<not> isValidEnv v (getProp (getProp target ''local'') ''config'')"
    by blast
  from validateLocalState_invalid [OF this] True show ?thesis
    by (auto simp: validateState_def validationMessages_def)
qed

text \<open>
  Claim C7: for a target state that is an object, if its \<open>local\<close> is not an object, or
  \<open>local.apps\<close> is missing, or \<open>local.config\<close> is missing or not a valid environment,
  \<open>setTarget\<close> throws an error with one of the messages of the validators, no
  transaction is started, nothing is emitted and the stored target is what it was.
\<close>

theorem setTarget_rejects_invalid:
  assumes "\<not> isObject (getProp target ''local'')
           \<or> isNullish (getProp (getProp target ''local'') ''apps'')
           \<or> isNullish (getProp (getProp target ''local'') ''config'')
           \<or> \<not> isValidEnv v (getProp (getProp target ''local'') ''config'')"
  shows "\<exists>msg. fst (setTarget v apiEndpoint txOutcome target localSource st) = Some (Error msg)
           \<and> msg \<in> validationMessages
           \<and> store (snd (setTarget v apiEndpoint txOutcome target localSource st)) = store st
           \<and> transactions (snd (setTarget v apiEndpoint txOutcome target localSource st))
               = transactions st
           \<and> emitted (snd (setTarget v apiEndpoint txOutcome target localSource st))
               = emitted st"
proof -
  from validateState_invalid [OF assms] obtain msg where
    vm: "validateState v target = Some (Error msg) \<and> msg \<in> validationMessages" ..
  then have v: "validateState v target = Some (Error msg)"
    and m: "msg \<in> validationMessages"
    by simp_all
  show ?thesis
    using m by (simp add: setTarget_invalid [OF v])
qed

theorem setTarget_rejects_invalid_witness:
  "fst (setTarget \<lparr>isValidShortText = (\<lambda>j. True), isValidAppsObject = (\<lambda>j. True),
                   isValidEnv = (\<lambda>j. True), isValidDependentAppsObject = (\<lambda>j. True),
                   isValidDependentDevicesObject = (\<lambda>j. True)\<rparr> None None
          (JObj [(''local'', JObj [(''name'', JStr ''dev''), (''config'', JObj [])])]) None
          initial_state) = Some (Error ''Invalid apps'')
   \<and> transactions (snd (setTarget \<lparr>isValidShortText = (\<lambda>j. True),
                   isValidAppsObject = (\<lambda>j. True),
                   isValidEnv = (\<lambda>j. True), isValidDependentAppsObject = (\<lambda>j. True),
                   isValidDependentDevicesObject = (\<lambda>j. True)\<rparr> None None
          (JObj [(''local'', JObj [(''name'', JStr ''dev''), (''config'', JObj [])])]) None
          initial_state)) = 0"
  using setTarget_rejects_invalid [of
      "JObj [(''local'', JObj [(''name'', JStr ''dev''), (''config'', JObj [])])]"
      "\<lparr>isValidShortText = (\<lambda>j. True), isValidAppsObject = (\<lambda>j. True),
        isValidEnv = (\<lambda>j. True), isValidDependentAppsObject = (\<lambda>j. True),
        isValidDependentDevicesObject = (\<lambda>j. True)\<rparr>" None None None initial_state]
  by (simp add: setTarget_def validateState_def validateLocalState_def initial_state_def)

section \<open>The health check\<close>

lemma cycleTimeMs_elapsed: "cycleTimeMs e st = elapsedMs e st"
proof -
  define d where "d = hrtime_ns (now e) - hrtime_ns (lastApplyStart st)"
  have "d = (d div 1000000000) * 1000000000 + d mod 1000000000"
    by simp
  then have "(of_int d :: rat) =
      of_int (d div 1000000000) * 1000000000 + of_int (d mod 1000000000)"
    by (metis of_int_add of_int_mult of_int_numeral)
  then have "(of_int d :: rat) / 1000000 =
      of_int (d div 1000000000) * 1000 + of_int (d mod 1000000000) / 1000000"
    by (simp add: field_simps)
  then show ?thesis
    by (simp add: cycleTimeMs_def elapsedMs_def hrtime_since_def Let_def d_def)
qed

text \<open>
  Claim C5, as stated: \<open>healthcheck\<close> is true iff no apply is in progress, or a fetch is in
  progress, or the cycle time is below twice \<open>maxPollTime\<close>. On an unmanaged device the
  check returns true although an apply has been in progress for an hour with no fetch
  and a poll time of one second.
\<close>

theorem healthcheck_unmanaged_counterexample:
  "fst (healthcheck \<lparr>unmanaged = True, now = (3600, 0), fetchesInProgress = 0,
                     timeSpentFetching = 0\<rparr> stuck_state) = True
   \<and> applyInProgress stuck_state
   \<and> elapsedMs \<lparr>unmanaged = True, now = (3600, 0), fetchesInProgress = 0,
                 timeSpentFetching = 0\<rparr> stuck_state - 0 = 3600000
   \<and> 2 * maxPollTime stuck_state = 2000"
  by (simp add: healthcheck_def stuck_state_def initial_state_def elapsedMs_def hrtime_ns_def)

text \<open>
  Claim C5, amended: on a device that is not unmanaged, \<open>healthcheck\<close> returns true iff
  no apply is in progress, or a fetch is in progress, or the time elapsed since
  \<open>lastApplyStart\<close> minus the time spent fetching is below twice \<open>maxPollTime\<close>; on an
  unmanaged device it returns true.
\<close>

theorem healthcheck_iff:
  "fst (healthcheck e st) \<longleftrightarrow>
     unmanaged e \<or> \<not> applyInProgress st \<or> fetchesInProgress e > 0
       \<or> elapsedMs e st - timeSpentFetching e < 2 * maxPollTime st"
  by (simp add: healthcheck_def Let_def cycleTimeWithinInterval_def cycleTimeMs_elapsed)

theorem healthcheck_iff_witness:
  "fst (healthcheck \<lparr>unmanaged = False, now = (3600, 0), fetchesInProgress = 0,
                     timeSpentFetching = 0\<rparr> stuck_state) = False"
  using healthcheck_iff [of "\<lparr>unmanaged = False, now = (3600, 0), fetchesInProgress = 0,
                     timeSpentFetching = 0\<rparr>" stuck_state]
  by (simp add: elapsedMs_def hrtime_ns_def stuck_state_def initial_state_def)

section \<open>The backoff after a failed apply\<close>

text \<open>
  Claim C6, as stated: a failed apply triggers another apply after the backoff delay and
  logs an \<open>UpdatesLockedError\<close> at info level. When another apply is scheduled already,
  \<open>applyError\<close> sets no timer, leaves the scheduled apply with the delay it had (0 here,
  where the backoff delay is 1000) and logs nothing for an \<open>UpdatesLockedError\<close>.
\<close>

theorem applyError_scheduled_counterexample:
  "scheduledApply (snd (applyError 500 (UpdatesLockedError ''locked'') False False False
       busy_state)) = Some \<lparr>s_force = False, s_delay = Some 0\<rparr>
   \<and> pendingApply (snd (applyError 500 (UpdatesLockedError ''locked'') False False False
       busy_state)) = None
   \<and> logged (snd (applyError 500 (UpdatesLockedError ''locked'') False False False
       busy_state)) = []
   \<and> min (2 ^ 1 * 500) (maxPollTime busy_state) = 1000"
  by (simp add: applyError_def busy_state_def initial_state_def Let_def emitAsync_def
        reportCurrentState_def)

text \<open>
  Claim C6, amended: a failed apply that is not intermediate increments \<open>failedUpdates\<close>
  by one. When no apply is scheduled already, another apply is triggered with the delay
  \<open>min (2 ^ failedUpdates * backoffIncrement) maxPollTime\<close>, for the incremented count:
  during an apply it becomes the scheduled apply, otherwise the timer is set with this
  delay. In that case one message is logged, at info level when the failure is an
  \<open>UpdatesLockedError\<close> and at error level otherwise. When an apply is scheduled
  already, it stays as it is, no timer is set, and only a failure other than an
  \<open>UpdatesLockedError\<close> is logged, at error level. The listener for the end of an apply
  logs nothing for an \<open>UpdatesLockedError\<close>.
\<close>

theorem applyError_backoff:
  "failedUpdates (snd (applyError b err force initial False st)) = failedUpdates st + 1
   \<and> (scheduledApply st = None \<longrightarrow>
        fst (applyError b err force initial False st) = None
      \<and> (applyInProgress st \<longrightarrow>
           scheduledApply (snd (applyError b err force initial False st))
             = Some \<lparr>s_force = force,
                     s_delay = Some (min (2 ^ (failedUpdates st + 1) * b) (maxPollTime st))\<rparr>)
      \<and> (\<not> applyInProgress st \<longrightarrow>
           pendingApply (snd (applyError b err force initial False st))
             = Some \<lparr>p_delay = min (2 ^ (failedUpdates st + 1) * b) (maxPollTime st),
                     p_force = force, p_initial = initial\<rparr>)
      \<and> logged (snd (applyError b err force initial False st))
           = logged st @
             [if isUpdatesLockedError err
              then (LogInfo,
                    UpdatesLockedRetrying (min (2 ^ (failedUpdates st + 1) * b) (maxPollTime st)))
              else (LogError,
                    SchedulingAnotherAttempt
                      (min (2 ^ (failedUpdates st + 1) * b) (maxPollTime st)) err)])
   \<and> (scheduledApply st \<noteq> None \<longrightarrow>
        fst (applyError b err force initial False st) = None
      \<and> scheduledApply (snd (applyError b err force initial False st)) = scheduledApply st
      \<and> pendingApply (snd (applyError b err force initial False st)) = pendingApply st
      \<and> logged (snd (applyError b err force initial False st))
           = logged st @
             (if isUpdatesLockedError err then []
              else [(LogError, UpdatingFailedAnotherScheduled err)]))
   \<and> (isUpdatesLockedError err \<longrightarrow> onApplyTargetStateEnd (Some err) st' = st')"
  by (auto simp: applyError_def triggerApplyTarget_def Let_def emitAsync_def logAt_def
        perform_def reportCurrentState_def onApplyTargetStateEnd_def)

theorem applyError_backoff_witness:
  "failedUpdates (snd (applyError 500 (UpdatesLockedError ''locked'') False False False
       (initial_state\<lparr>failedUpdates := 2\<rparr>))) = 3
   \<and> pendingApply (snd (applyError 500 (UpdatesLockedError ''locked'') False False False
       (initial_state\<lparr>failedUpdates := 2\<rparr>)))
       = Some \<lparr>p_delay = 4000, p_force = False, p_initial = False\<rparr>
   \<and> logged (snd (applyError 500 (UpdatesLockedError ''locked'') False False False
       (initial_state\<lparr>failedUpdates := 2\<rparr>))) = [(LogInfo, UpdatesLockedRetrying 4000)]"
  using applyError_backoff [of 500 "UpdatesLockedError ''locked''" False False
      "initial_state\<lparr>failedUpdates := 2\<rparr>" initial_state]
  by (simp add: initial_state_def)

section \<open>Reboot and shutdown\<close>






section \<open>The application id of a request\<close>

text \<open>
  Claim C10: when \<open>checkInt\<close> finds no number in the path parameter \<open>appId\<close>, or finds
  zero, the handlers of the service actions, of purge and of restart respond 400 with the
  message \<open>Missing app id\<close>; they have called nothing, neither the scope test nor the
  executor, and the state is what it was.
\<close>

theorem missing_app_id:
  assumes "falsyId (checkInt env (appIdParam req))"
  shows "handleServiceAction env action req w
           = (Responded 400 (Failed ''Missing app id''), [], w)
       \<and> purge env req w = (Responded 400 (Failed ''Missing app id''), [], w)
       \<and> restart env req w = (Responded 400 (Failed ''Missing app id''), [], w)"
  using assms
  by (cases "checkInt env (appIdParam req)")
     (simp_all add: handleServiceAction_def purge_def restart_def)

theorem missing_app_id_witness:
  "handleServiceAction (device_env run_ok) ''stop'' (request_for ''0'' 1658654) host_b
     = (Responded 400 (Failed ''Missing app id''), [], host_b)
   \<and> purge (device_env run_ok) (request_for ''1658654abc'' 1658654) host_b
     = (Responded 400 (Failed ''Missing app id''), [], host_b)"
  using missing_app_id [of "device_env run_ok" "request_for ''0'' 1658654" "''stop''" host_b]
    missing_app_id [of "device_env run_ok" "request_for ''1658654abc'' 1658654" "''stop''" host_b]
  by (simp add: device_env_def request_for_def)

section \<open>Service actions\<close>

lemma handleServiceAction_lookups:
  assumes "checkInt env (appIdParam req) = Some appId" and "appId \<noteq> 0"
      and "isScoped req [appId]"
      and "getCurrentApps env = Inr apps" and "getApp env appId = Inr targetApp"
  shows "handleServiceAction env action req w =
     (let cs = [IsScoped [appId], GetCurrentApps, GetApp appId]
      in case map_of apps appId of
           None \<Rightarrow> (Responded 404 (Text (appNotFoundMessage env)), cs, w)
         | Some app \<Rightarrow>
             if bodyImageId req = None \<and> bodyServiceName req = None
             then (Next (Error (v2ServiceEndpointInputErrorMessage env)), cs, w)
             else
               (case findService (bodyImageId req) (bodyServiceName req) (a_services app) of
                  None \<Rightarrow> (Responded 404 (Text (serviceNotFoundMessage env)), cs, w)
                | Some svc \<Rightarrow>
                    let stp = generateStep action svc
                                (findService (bodyImageId req) (bodyServiceName req)
                                   (a_services targetApp)) True;
                        cs' = cs @ [SetTargetVolatileForService (s_imageId svc)
                                      (action \<noteq> ''stop''),
                                    ExecuteStep stp (bodyForce req)]
                    in case executeStep env stp (bodyForce req) w of
                         (Some err, w') \<Rightarrow> (Next err, cs', w')
                       | (None, w') \<Rightarrow> (Responded 200 (Text ''OK''), cs', w')))"
  using assms by (simp add: handleServiceAction_def Let_def split: option.splits)

text \<open>
  Claim C4, as stated: a service action on an application that is in scope but is not
  among the current applications is answered with 409. The handler answers 404: here
  for a stop of a service of application 9000, which the device does not run.
\<close>

theorem unknown_app_counterexample:
  "fst (handleServiceAction (device_env run_ok) ''stop'' (request_for ''9000'' 9000) host_b)
     = Responded 404 (Text ''App not found'')"
  by (simp add: handleServiceAction_def device_env_def request_for_def scopedTo_def)

text \<open>
  Claim C4, amended: for a service action (start, stop or restart of a service) whose
  application id is a nonzero integer in the scope of the key, when the current
  applications have been read and none of them has this id, the handler responds 404
  with the message for an application that is not found, provided the target application
  has been read; if reading the target application fails, its error is passed on. In
  both cases nothing is executed.
\<close>

theorem unknown_app_not_found:
  assumes "checkInt env (appIdParam req) = Some appId" and "appId \<noteq> 0"
      and "isScoped req [appId]"
      and "getCurrentApps env = Inr apps" and "map_of apps appId = None"
  shows "(\<forall>targetApp. getApp env appId = Inr targetApp \<longrightarrow>
            handleServiceAction env action req w
              = (Responded 404 (Text (appNotFoundMessage env)),
                 [IsScoped [appId], GetCurrentApps, GetApp appId], w))
       \<and> (\<forall>err. getApp env appId = Inl err \<longrightarrow>
            handleServiceAction env action req w
              = (Next err, [IsScoped [appId], GetCurrentApps, GetApp appId], w))"
  using assms by (simp add: handleServiceAction_def Let_def)

theorem unknown_app_not_found_witness:
  "handleServiceAction (device_env run_ok) ''restart'' (request_for ''9000'' 9000) host_b
     = (Responded 404 (Text ''App not found''),
        [IsScoped [9000], GetCurrentApps, GetApp 9000], host_b)"
  using unknown_app_not_found [of "device_env run_ok" "request_for ''9000'' 9000" 9000
      "[(1658654, \<lparr>a_services = [main_service], a_volumes = []\<rparr>),
        (222222, \<lparr>a_services = [other_service], a_volumes = [''data'']\<rparr>)]"
      "''restart''" host_b]
  by (simp add: device_env_def request_for_def scopedTo_def)

text \<open>
  Claim C1, as stated: every request to start an existing service of an application in
  scope is answered with 200. When the runtime fails to start the container, the error
  goes to \<open>next\<close> and no 200 is sent.
\<close>

theorem start_service_counterexample:
  "fst (handleServiceAction (device_env run_failing) ''start''
          (request_for ''1658654'' 1658654) host_c)
     = Next (Error ''container failed to start'')"
  by (simp add: handleServiceAction_def device_env_def request_for_def scopedTo_def
        findService_def main_service_def generateStep_def executeStepSpec_def
        lockFreeActions_def run_failing_def)

text \<open>
  Claim C1, amended: for a request to start a service, with an application id that is a
  nonzero integer in the scope of the key, on a device where the current and the target
  application have been read and the request names a current service of the
  application: the executor is called exactly once, with the step \<open>start\<close> of this
  service and \<open>wait: true\<close>; the executor does not wrap the step in \<open>lock\<close>, so the state
  is the one the step itself leaves, whatever lock files there are; and the response is
  200 with the body \<open>OK\<close> when the step succeeds, while its error is passed on when it
  fails.
\<close>

theorem start_service_bypasses_lock:
  assumes "checkInt env (appIdParam req) = Some appId" and "appId \<noteq> 0"
      and "isScoped req [appId]"
      and "getCurrentApps env = Inr apps" and "getApp env appId = Inr targetApp"
      and "map_of apps appId = Some app"
      and "bodyImageId req \<noteq> None \<or> bodyServiceName req \<noteq> None"
      and "findService (bodyImageId req) (bodyServiceName req) (a_services app) = Some svc"
      and "executeStep env = executeStepSpec run"
      and "stp = \<lparr>stepAction = ''start'', stepCurrent = Some svc,
                   stepTarget = findService (bodyImageId req) (bodyServiceName req)
                                  (a_services targetApp),
                   stepWait = Some True\<rparr>"
  shows "handleServiceAction env ''start'' req w =
           ((case fst (run stp w) of
               None \<Rightarrow> Responded 200 (Text ''OK'')
             | Some err \<Rightarrow> Next err),
            [IsScoped [appId], GetCurrentApps, GetApp appId,
             SetTargetVolatileForService (s_imageId svc) True,
             ExecuteStep stp (bodyForce req)],
            snd (run stp w))"
proof -
  have ex: "executeStep env stp (bodyForce req) w = run stp w"
    using assms(9,10) by (simp add: executeStepSpec_def lockFreeActions_def)
  show ?thesis
    using assms(6,7,8) ex
    by (simp add: handleServiceAction_lookups [OF assms(1-5)] Let_def generateStep_def
          assms(10) [symmetric] split: prod.splits option.splits)
qed

theorem start_service_bypasses_lock_witness:
  "handleServiceAction (device_env run_ok) ''start'' (request_for ''1658654'' 1658654) host_c
     = (Responded 200 (Text ''OK''),
        [IsScoped [1658654], GetCurrentApps, GetApp 1658654,
         SetTargetVolatileForService (Some 11) True,
         ExecuteStep start_main_step None],
        host_c)"
  using start_service_bypasses_lock [of "device_env run_ok" "request_for ''1658654'' 1658654"
      1658654
      "[(1658654, \<lparr>a_services = [main_service], a_volumes = []\<rparr>),
        (222222, \<lparr>a_services = [other_service], a_volumes = [''data'']\<rparr>)]"
      "\<lparr>a_services = [main_service], a_volumes = []\<rparr>"
      "\<lparr>a_services = [main_service], a_volumes = []\<rparr>" main_service run_ok
      start_main_step host_c]
  by (simp add: device_env_def request_for_def scopedTo_def findService_def
        start_main_step_def run_ok_def main_service_def)

text \<open>For comparison, on the same host a stop of the same service takes the lock files,
  finds one locked and fails with \<open>UpdatesLockedError\<close>.\<close>

lemma stop_service_is_locked:
  "fst (handleServiceAction (device_env run_ok) ''stop'' (request_for ''1658654'' 1658654)
          host_c)
     = Next (UpdatesLockedError ''Updates are locked: EEXIST: file already exists'')"
  by (simp add: handleServiceAction_def device_env_def request_for_def scopedTo_def
        findService_def main_service_def generateStep_def executeStepSpec_def
        lockFreeActions_def run_ok_def lock_def readLockDir_def writeLock_def host_c_def
        lockFilesOnHost_def takeLockFile_def lockAsync_def errText_def Let_def)

section \<open>Scoped keys\<close>

lemma set_update_subset: "set (AList.update k v al) \<subseteq> insert (k, v) (set al)"
  by (induction al) auto

lemma addApp_appIds:
  assumes "\<forall>ne \<in> set (snd acc). P (e_appId (snd ne))" and "P (d_appId a)"
  shows "\<forall>ne \<in> set (snd (addApp a acc)). P (e_appId (snd ne))"
proof
  fix ne assume "ne \<in> set (snd (addApp a acc))"
  then have "ne \<in> insert (d_name a, \<lparr>e_appId = d_appId a, e_commit = d_commit a,
                                      e_services = []\<rparr>) (set (snd acc))"
    using set_update_subset by (fastforce simp: addApp_def)
  with assms show "P (e_appId (snd ne))" by auto
qed

lemma fold_addApp_appIds:
  assumes "\<forall>ne \<in> set (snd acc). P (e_appId (snd ne))" and "\<forall>a \<in> set as. P (d_appId a)"
  shows "\<forall>ne \<in> set (snd (fold addApp as acc)). P (e_appId (snd ne))"
  using assms
proof (induction as arbitrary: acc)
  case Nil
  then show ?case by simp
next
  case (Cons a as)
  have "\<forall>ne \<in> set (snd (addApp a acc)). P (e_appId (snd ne))"
    using Cons.prems by (intro addApp_appIds) auto
  then show ?case
    using Cons.prems by (simp add: Cons.IH)
qed

lemma addImage_appIds:
  assumes "\<forall>ne \<in> set (snd acc). P (e_appId (snd ne))"
  shows "\<forall>ne \<in> set (snd (addImage svcs img acc)). P (e_appId (snd ne))"
  using assms by (auto simp: addImage_def Let_def split: option.splits)

lemma fold_addImage_appIds:
  assumes "\<forall>ne \<in> set (snd acc). P (e_appId (snd ne))"
  shows "\<forall>ne \<in> set (snd (fold (addImage svcs) imgs acc)). P (e_appId (snd ne))"
  using assms
proof (induction imgs arbitrary: acc)
  case Nil
  then show ?case by simp
next
  case (Cons img imgs)
  from addImage_appIds [OF Cons.prems, of svcs img] show ?case
    by (simp add: Cons.IH)
qed

lemma applicationsState_appIds:
  assumes "isScoped req = scopedTo A"
  shows "\<forall>ne \<in> set (snd (applicationsState env req)). e_appId (snd ne) = A"
proof -
  have "\<forall>ne \<in> set (snd (fold addApp (filter (\<lambda>a. isScoped req [d_appId a]) (dbApps env))
                              ([], []))). e_appId (snd ne) = A"
    by (rule fold_addApp_appIds) (simp_all add: assms scopedTo_def)
  from fold_addImage_appIds [OF this] show ?thesis
    by (simp add: applicationsState_def Let_def)
qed

lemma find_filter_scope:
  "\<forall>x \<in> set xs. P x \<longrightarrow> Q x \<Longrightarrow> find P (filter Q xs) = find P xs"
  by (induction xs) auto

lemma addImage_scope:
  assumes "\<forall>s \<in> set svcs. s_imageId s = Some (i_imageId img) \<longrightarrow> s_appId s = A"
  shows "addImage (filter (\<lambda>s. s_appId s = A) svcs) img = addImage svcs img"
proof -
  have f: "find (\<lambda>s. s_imageId s = Some (i_imageId img)) (filter (\<lambda>s. s_appId s = A) svcs)
             = find (\<lambda>s. s_imageId s = Some (i_imageId img)) svcs"
    using assms by (intro find_filter_scope)
  show ?thesis
    unfolding addImage_def f fun_eq_iff by simp
qed

lemma fold_addImage_scope:
  assumes "\<forall>img \<in> set imgs. \<forall>s \<in> set svcs.
             s_imageId s = Some (i_imageId img) \<longrightarrow> s_appId s = A"
  shows "fold (addImage (filter (\<lambda>s. s_appId s = A) svcs)) imgs acc
           = fold (addImage svcs) imgs acc"
  using assms by (intro fold_cong) (simp_all add: addImage_scope)

lemma applicationsState_scoped:
  assumes "isScoped req = scopedTo A"
      and "\<forall>img \<in> set (imagesGetStatus env). \<forall>s \<in> set (serviceManagerGetStatus env).
             i_appId img = A \<and> s_imageId s = Some (i_imageId img) \<longrightarrow> s_appId s = A"
  shows "applicationsState env req
           = (200, snd (fold (addImage (filter (\<lambda>s. s_appId s = A)
                                           (serviceManagerGetStatus env)))
                          (filter (\<lambda>i. i_appId i = A) (imagesGetStatus env))
                          (fold addApp (filter (\<lambda>a. d_appId a = A) (dbApps env)) ([], []))))"
proof -
  have "fold (addImage (filter (\<lambda>s. s_appId s = A) (serviceManagerGetStatus env)))
          (filter (\<lambda>i. i_appId i = A) (imagesGetStatus env)) acc
        = fold (addImage (serviceManagerGetStatus env))
          (filter (\<lambda>i. i_appId i = A) (imagesGetStatus env)) acc" for acc
    using assms(2) by (intro fold_addImage_scope) auto
  then show ?thesis
    by (simp add: applicationsState_def Let_def assms(1) scopedTo_def)
qed

lemma addApp_entries:
  assumes "\<forall>ne \<in> set (snd acc). P (snd ne)"
      and "P \<lparr>e_appId = d_appId a, e_commit = d_commit a, e_services = []\<rparr>"
  shows "\<forall>ne \<in> set (snd (addApp a acc)). P (snd ne)"
proof
  fix ne assume "ne \<in> set (snd (addApp a acc))"
  then have "ne \<in> insert (d_name a, \<lparr>e_appId = d_appId a, e_commit = d_commit a,
                                      e_services = []\<rparr>) (set (snd acc))"
    using set_update_subset by (fastforce simp: addApp_def)
  with assms show "P (snd ne)" by auto
qed

lemma fold_addApp_no_services:
  assumes "\<forall>ne \<in> set (snd acc). e_services (snd ne) = []"
  shows "\<forall>ne \<in> set (snd (fold addApp as acc)). e_services (snd ne) = []"
  using assms
proof (induction as arbitrary: acc)
  case Nil
  then show ?case by simp
next
  case (Cons a as)
  have "\<forall>ne \<in> set (snd (addApp a acc)). e_services (snd ne) = []"
    using Cons.prems by (intro addApp_entries) auto
  then show ?case
    by (simp add: Cons.IH)
qed

lemma addImage_services:
  assumes "\<forall>ne \<in> set (snd acc). \<forall>se \<in> set (e_services (snd ne)). R se"
      and "\<And>st. R (i_serviceName img, \<lparr>e_status = st, e_releaseId = i_releaseId img,
                 e_downloadProgress = truthyProgress (i_downloadProgress img)\<rparr>)"
  shows "\<forall>ne \<in> set (snd (addImage svcs img acc)). \<forall>se \<in> set (e_services (snd ne)). R se"
proof (cases "map_of (fst acc) (i_appId img)")
  case None
  then show ?thesis using assms(1) by (simp add: addImage_def)
next
  case (Some appName)
  define entry where "entry = \<lparr>e_status =
      (case find (\<lambda>s. s_imageId s = Some (i_imageId img)) svcs of
         None \<Rightarrow> Some (i_status img)
       | Some s \<Rightarrow> if truthyStatus (s_status s) then s_status s else Some (i_status img)),
      e_releaseId = i_releaseId img,
      e_downloadProgress = truthyProgress (i_downloadProgress img)\<rparr>"
  have entry: "R (i_serviceName img, entry)"
    unfolding entry_def by (rule assms(2))
  define f where "f = (\<lambda>ne :: string \<times> app_entry. if fst ne = appName
                   then (fst ne, (snd ne)\<lparr>e_services :=
                           AList.update (i_serviceName img) entry (e_services (snd ne))\<rparr>)
                   else ne)"
  have eq: "snd (addImage svcs img acc) = map f (snd acc)"
    using Some by (simp add: addImage_def Let_def entry_def f_def)
  show ?thesis
  proof (intro ballI)
    fix ne se
    assume ne: "ne \<in> set (snd (addImage svcs img acc))"
       and se: "se \<in> set (e_services (snd ne))"
    from ne eq obtain ne0 where ne0: "ne0 \<in> set (snd acc)" and ne_eq: "ne = f ne0"
      by auto
    show "R se"
    proof (cases "fst ne0 = appName")
      case False
      with ne_eq have "ne = ne0" by (simp add: f_def)
      with ne0 se assms(1) show ?thesis by blast
    next
      case True
      with ne_eq se
      have "se \<in> set (AList.update (i_serviceName img) entry (e_services (snd ne0)))"
        by (simp add: f_def)
      with set_update_subset
      have "se = (i_serviceName img, entry) \<or> se \<in> set (e_services (snd ne0))"
        by fastforce
      with ne0 assms(1) entry show ?thesis by blast
    qed
  qed
qed

lemma fold_addImage_services:
  assumes "\<forall>ne \<in> set (snd acc). \<forall>se \<in> set (e_services (snd ne)). R se"
      and "\<forall>img \<in> set imgs. \<forall>st. R (i_serviceName img, \<lparr>e_status = st,
                 e_releaseId = i_releaseId img,
                 e_downloadProgress = truthyProgress (i_downloadProgress img)\<rparr>)"
  shows "\<forall>ne \<in> set (snd (fold (addImage svcs) imgs acc)).
           \<forall>se \<in> set (e_services (snd ne)). R se"
  using assms
proof (induction imgs arbitrary: acc)
  case Nil
  then show ?case by simp
next
  case (Cons img imgs)
  have "\<forall>ne \<in> set (snd (addImage svcs img acc)). \<forall>se \<in> set (e_services (snd ne)). R se"
    using Cons.prems by (intro addImage_services) auto
  then show ?case
    using Cons.prems(2) by (simp add: Cons.IH)
qed

lemma applicationsState_services:
  assumes "isScoped req = scopedTo A"
  shows "\<forall>ne \<in> set (snd (applicationsState env req)). \<forall>se \<in> set (e_services (snd ne)).
           \<exists>img \<in> set (imagesGetStatus env). i_appId img = A
             \<and> fst se = i_serviceName img
             \<and> e_releaseId (snd se) = i_releaseId img
             \<and> e_downloadProgress (snd se) = truthyProgress (i_downloadProgress img)"
proof -
  have "\<forall>ne \<in> set (snd (fold addApp (filter (\<lambda>a. isScoped req [d_appId a]) (dbApps env))
                              ([], []))). e_services (snd ne) = []"
    by (rule fold_addApp_no_services) simp
  then have "\<forall>ne \<in> set (snd (fold addApp (filter (\<lambda>a. isScoped req [d_appId a]) (dbApps env))
                              ([], []))). \<forall>se \<in> set (e_services (snd ne)).
           \<exists>img \<in> set (imagesGetStatus env). i_appId img = A
             \<and> fst se = i_serviceName img
             \<and> e_releaseId (snd se) = i_releaseId img
             \<and> e_downloadProgress (snd se) = truthyProgress (i_downloadProgress img)"
    by simp
  then have "\<forall>ne \<in> set (snd (fold (addImage (serviceManagerGetStatus env))
                 (filter (\<lambda>img. isScoped req [i_appId img]) (imagesGetStatus env))
                 (fold addApp (filter (\<lambda>a. isScoped req [d_appId a]) (dbApps env))
                              ([], [])))). \<forall>se \<in> set (e_services (snd ne)).
           \<exists>img \<in> set (imagesGetStatus env). i_appId img = A
             \<and> fst se = i_serviceName img
             \<and> e_releaseId (snd se) = i_releaseId img
             \<and> e_downloadProgress (snd se) = truthyProgress (i_downloadProgress img)"
    by (rule fold_addImage_services) (auto simp: assms scopedTo_def)
  then show ?thesis
    by (simp add: applicationsState_def Let_def)
qed


lemma find_SomeD: "find P xs = Some x \<Longrightarrow> x \<in> set xs \<and> P x"
  by (induction xs) (auto split: if_splits)

lemma containerId_in_scope:
  assumes "isScoped req = scopedTo A" and "snd (containerId env req) = ContainerId cid"
  shows "\<exists>s \<in> set (serviceManagerGetAll env). s_appId s = A \<and> s_containerId s = cid"
proof -
  from assms(2) obtain n svc where
    "find (\<lambda>svc. s_serviceName svc = n)
       (filter (\<lambda>s. isScoped req [s_appId s]) (serviceManagerGetAll env)) = Some svc"
    and "s_containerId svc = cid"
    by (auto simp: containerId_def Let_def split: if_splits option.splits)
  then have "svc \<in> set (filter (\<lambda>s. isScoped req [s_appId s]) (serviceManagerGetAll env))"
    and "s_containerId svc = cid"
    using find_SomeD by fastforce+
  then show ?thesis
    using assms(1) by (auto simp: scopedTo_def)
qed

text \<open>
  \<open>cleanup-volumes\<close> on the device above, with a key scoped to 1658654. The handler says
  of an application out of scope: do not clean up its volumes. The list of the volumes to
  keep that it hands to \<open>removeOrphanedVolumes\<close> does not hold the volume \<open>data\<close> of
  application 222222; what becomes of that volume is up to \<open>removeOrphanedVolumes\<close>,
  which is not among the sources.
\<close>

lemma cleanupVolumes_referenced:
  "getTargetApps (device_env run_ok)
     = [(1658654, \<lparr>a_services = [main_service], a_volumes = []\<rparr>),
        (222222, \<lparr>a_services = [other_service], a_volumes = [''data'']\<rparr>)]
   \<and> cleanupVolumes (device_env run_ok) (request_for ''1658654'' 1658654) = (200, [])"
  by (simp add: cleanupVolumes_def device_env_def request_for_def scopedTo_def)

text \<open>
  Claim C8, as stated: a request with a key scoped to application \<open>A\<close> that addresses
  another application is rejected with 401 or 409, and every listing leaves out the
  services of the applications out of scope. When the status of the device cannot be
  retrieved, the request for the state of the other application is answered with 500;
  a request whose application id is zero is answered with 400; and where a service of
  application 222222 carries the id of the image of \<open>main\<close>, \<open>applications/state\<close>
  reports the status of that service, \<open>Stopping\<close>, to a key scoped to 1658654, whose own
  service \<open>main\<close> is \<open>Running\<close>.
\<close>

theorem scoped_key_counterexample:
  "applicationState (device_env run_ok) (request_for ''222222'' 1658654)
     = (Responded 500 (FailedWithId ''Unable to retrieve state for application ID: '' 222222),
        [GetStatus])
   \<and> handleServiceAction (device_env run_ok) ''stop'' (request_for ''0'' 1658654) host_c
     = (Responded 400 (Failed ''Missing app id''), [], host_c)
   \<and> s_appId stray_service = 222222
   \<and> s_status stray_service = Some ''Stopping''
   \<and> s_status main_service = Some ''Running''
   \<and> serviceManagerGetStatus stray_env = [stray_service, main_service, other_service]
   \<and> snd (applicationsState stray_env (request_for ''1658654'' 1658654))
     = [(''one'', \<lparr>e_appId = 1658654, e_commit = ''abc'',
          e_services = [(''main'', \<lparr>e_status = Some ''Stopping'', e_releaseId = 1,
                                     e_downloadProgress = None\<rparr>)]\<rparr>)]"
  by (simp add: applicationState_def handleServiceAction_def device_env_def request_for_def
        applicationsState_def stray_env_def scopedTo_def
        addApp_def addImage_def Let_def main_image_def other_image_def main_service_def
        other_service_def stray_service_def truthyStatus_def truthyProgress_def)

text \<open>
  Claim C8, amended: with a key scoped to application \<open>A\<close>, a request that addresses
  another application \<open>B\<close> is rejected and nothing is executed: the service actions,
  purge and restart respond 401 after the scope test alone (400 before it when \<open>B\<close> is
  zero) and leave the state as it is; the request for the state of the application
  responds 409, or 500 when the status of the device cannot be retrieved (400 when \<open>B\<close>
  is zero). Every container and image of \<open>state/status\<close> belongs to \<open>A\<close>, and the
  response is the same on any device with the same services and images of \<open>A\<close>; the
  container that \<open>containerId\<close> reports belongs to a service of \<open>A\<close>, and the response is
  the same on any device with the same services of \<open>A\<close>. Every application of
  \<open>applications/state\<close> is \<open>A\<close>, and every service entry under it has the name, the
  release and the download progress of an image of \<open>A\<close>; on the devices where a service
  that carries the id of an image of \<open>A\<close> belongs to \<open>A\<close> itself, the response is the
  same on any two of them with the same rows, images and services of \<open>A\<close>.
\<close>

theorem scoped_key_isolation:
  assumes scoped: "isScoped req = scopedTo A"
  shows "(\<forall>B. checkInt env (appIdParam req) = Some B \<and> B \<noteq> A \<longrightarrow>
            handleServiceAction env action req w = rejected B w
          \<and> purge env req w = rejected B w
          \<and> restart env req w = rejected B w
          \<and> fst (applicationState env req)
              = (if B = 0
                 then Responded 400 (Failed (''Invalid application ID: '' @ appIdParam req))
                 else case getStatus env of
                        Inl err \<Rightarrow>
                          Responded 500
                            (FailedWithId ''Unable to retrieve state for application ID: '' B)
                      | Inr localApps \<Rightarrow>
                          Responded 409 (FailedWithId ''Application ID does not exist: '' B))
          \<and> set (snd (applicationState env req)) \<subseteq> {GetStatus, IsScoped [B]})
       \<and> (\<forall>c \<in> set (r_containers (snd (stateStatus env req pending))). s_appId c = A)
       \<and> (\<forall>i \<in> set (r_images (snd (stateStatus env req pending))). i_appId i = A)
       \<and> (\<forall>env'. filter (\<lambda>s. s_appId s = A) (serviceManagerGetAll env')
                    = filter (\<lambda>s. s_appId s = A) (serviceManagerGetAll env)
                \<and> filter (\<lambda>i. i_appId i = A) (imagesGetStatus env')
                    = filter (\<lambda>i. i_appId i = A) (imagesGetStatus env)
                \<and> getCommitForApp env' = getCommitForApp env \<longrightarrow>
            stateStatus env' req pending = stateStatus env req pending)
       \<and> (\<forall>cid. snd (containerId env req) = ContainerId cid \<longrightarrow>
            (\<exists>s \<in> set (serviceManagerGetAll env). s_appId s = A \<and> s_containerId s = cid))
       \<and> (\<forall>env'. filter (\<lambda>s. s_appId s = A) (serviceManagerGetAll env')
                    = filter (\<lambda>s. s_appId s = A) (serviceManagerGetAll env) \<longrightarrow>
            containerId env' req = containerId env req)
       \<and> (\<forall>ne \<in> set (snd (applicationsState env req)). e_appId (snd ne) = A)
       \<and> (\<forall>ne \<in> set (snd (applicationsState env req)). \<forall>se \<in> set (e_services (snd ne)).
            \<exists>img \<in> set (imagesGetStatus env). i_appId img = A
              \<and> fst se = i_serviceName img
              \<and> e_releaseId (snd se) = i_releaseId img
              \<and> e_downloadProgress (snd se) = truthyProgress (i_downloadProgress img))
       \<and> (\<forall>env'. (\<forall>img \<in> set (imagesGetStatus env). \<forall>s \<in> set (serviceManagerGetStatus env).
                     i_appId img = A \<and> s_imageId s = Some (i_imageId img) \<longrightarrow> s_appId s = A)
                \<and> (\<forall>img \<in> set (imagesGetStatus env').
                     \<forall>s \<in> set (serviceManagerGetStatus env').
                     i_appId img = A \<and> s_imageId s = Some (i_imageId img) \<longrightarrow> s_appId s = A)
                \<and> filter (\<lambda>a. d_appId a = A) (dbApps env')
                    = filter (\<lambda>a. d_appId a = A) (dbApps env)
                \<and> filter (\<lambda>i. i_appId i = A) (imagesGetStatus env')
                    = filter (\<lambda>i. i_appId i = A) (imagesGetStatus env)
                \<and> filter (\<lambda>s. s_appId s = A) (serviceManagerGetStatus env')
                    = filter (\<lambda>s. s_appId s = A) (serviceManagerGetStatus env) \<longrightarrow>
            applicationsState env' req = applicationsState env req)"
proof (intro conjI allI impI ballI)
  fix B
  assume b: "checkInt env (appIdParam req) = Some B \<and> B \<noteq> A"
  then have ns: "\<not> isScoped req [B]"
    by (simp add: scoped scopedTo_def)
  from b ns show "handleServiceAction env action req w = rejected B w"
    by (simp add: handleServiceAction_def rejected_def)
  from b ns show "purge env req w = rejected B w"
    by (simp add: purge_def rejected_def)
  from b ns show "restart env req w = rejected B w"
    by (simp add: restart_def rejected_def)
  from b ns show "fst (applicationState env req)
      = (if B = 0
         then Responded 400 (Failed (''Invalid application ID: '' @ appIdParam req))
         else case getStatus env of
                Inl err \<Rightarrow>
                  Responded 500
                    (FailedWithId ''Unable to retrieve state for application ID: '' B)
              | Inr localApps \<Rightarrow>
                  Responded 409 (FailedWithId ''Application ID does not exist: '' B))"
    by (simp add: applicationState_def split: sum.splits)
  from b ns show "set (snd (applicationState env req)) \<subseteq> {GetStatus, IsScoped [B]}"
    by (simp add: applicationState_def split: sum.splits)
next
  fix c assume "c \<in> set (r_containers (snd (stateStatus env req pending)))"
  then show "s_appId c = A"
    by (simp add: stateStatus_def Let_def scoped scopedTo_def)
next
  fix i assume "i \<in> set (r_images (snd (stateStatus env req pending)))"
  then show "i_appId i = A"
    by (simp add: stateStatus_def Let_def scoped scopedTo_def)
next
  fix env' :: "'b api_env"
  assume "filter (\<lambda>s. s_appId s = A) (serviceManagerGetAll env')
            = filter (\<lambda>s. s_appId s = A) (serviceManagerGetAll env)
        \<and> filter (\<lambda>i. i_appId i = A) (imagesGetStatus env')
            = filter (\<lambda>i. i_appId i = A) (imagesGetStatus env)
        \<and> getCommitForApp env' = getCommitForApp env"
  then show "stateStatus env' req pending = stateStatus env req pending"
    by (simp add: stateStatus_def scoped scopedTo_def)
next
  fix cid assume "snd (containerId env req) = ContainerId cid"
  from containerId_in_scope [OF scoped this]
  show "\<exists>s \<in> set (serviceManagerGetAll env). s_appId s = A \<and> s_containerId s = cid" .
next
  fix env' :: "'c api_env"
  assume "filter (\<lambda>s. s_appId s = A) (serviceManagerGetAll env')
            = filter (\<lambda>s. s_appId s = A) (serviceManagerGetAll env)"
  then show "containerId env' req = containerId env req"
    by (simp add: containerId_def scoped scopedTo_def)
next
  fix ne assume "ne \<in> set (snd (applicationsState env req))"
  with applicationsState_appIds [OF scoped] show "e_appId (snd ne) = A"
    by blast
next
  fix ne se
  assume "ne \<in> set (snd (applicationsState env req))" and "se \<in> set (e_services (snd ne))"
  with applicationsState_services [OF scoped, of env]
  show "\<exists>img \<in> set (imagesGetStatus env). i_appId img = A
          \<and> fst se = i_serviceName img
          \<and> e_releaseId (snd se) = i_releaseId img
          \<and> e_downloadProgress (snd se) = truthyProgress (i_downloadProgress img)"
    by blast
next
  fix env' :: "'d api_env"
  assume h: "(\<forall>img \<in> set (imagesGetStatus env). \<forall>s \<in> set (serviceManagerGetStatus env).
             i_appId img = A \<and> s_imageId s = Some (i_imageId img) \<longrightarrow> s_appId s = A)
        \<and> (\<forall>img \<in> set (imagesGetStatus env'). \<forall>s \<in> set (serviceManagerGetStatus env').
             i_appId img = A \<and> s_imageId s = Some (i_imageId img) \<longrightarrow> s_appId s = A)
        \<and> filter (\<lambda>a. d_appId a = A) (dbApps env')
            = filter (\<lambda>a. d_appId a = A) (dbApps env)
        \<and> filter (\<lambda>i. i_appId i = A) (imagesGetStatus env')
            = filter (\<lambda>i. i_appId i = A) (imagesGetStatus env)
        \<and> filter (\<lambda>s. s_appId s = A) (serviceManagerGetStatus env')
            = filter (\<lambda>s. s_appId s = A) (serviceManagerGetStatus env)"
  from h have "applicationsState env req
           = (200, snd (fold (addImage (filter (\<lambda>s. s_appId s = A)
                                           (serviceManagerGetStatus env)))
                          (filter (\<lambda>i. i_appId i = A) (imagesGetStatus env))
                          (fold addApp (filter (\<lambda>a. d_appId a = A) (dbApps env)) ([], []))))"
    by (intro applicationsState_scoped [OF scoped]) blast
  moreover from h have "applicationsState env' req
           = (200, snd (fold (addImage (filter (\<lambda>s. s_appId s = A)
                                           (serviceManagerGetStatus env')))
                          (filter (\<lambda>i. i_appId i = A) (imagesGetStatus env'))
                          (fold addApp (filter (\<lambda>a. d_appId a = A) (dbApps env')) ([], []))))"
    by (intro applicationsState_scoped [OF scoped]) blast
  ultimately show "applicationsState env' req = applicationsState env req"
    using h by simp
qed

theorem scoped_key_isolation_witness:
  "handleServiceAction (device_env run_ok) ''stop'' (request_for ''222222'' 1658654) host_c
     = (Responded 401 (Failed ''Application is not available''), [IsScoped [222222]], host_c)
   \<and> r_containers (snd (stateStatus (device_env run_ok) (request_for ''222222'' 1658654)
        False)) = [main_service]
   \<and> applicationsState single_env (request_for ''222222'' 1658654)
     = applicationsState (device_env run_ok) (request_for ''222222'' 1658654)"
proof -
  have sc: "isScoped (request_for ''222222'' 1658654) = scopedTo 1658654"
    by (simp add: request_for_def)
  have b: "checkInt (device_env run_ok) (appIdParam (request_for ''222222'' 1658654))
             = Some 222222 \<and> (222222::int) \<noteq> 1658654"
    by (simp add: device_env_def request_for_def)
  have c: "(\<forall>img \<in> set (imagesGetStatus (device_env run_ok)).
              \<forall>s \<in> set (serviceManagerGetStatus (device_env run_ok)).
              i_appId img = 1658654 \<and> s_imageId s = Some (i_imageId img)
                \<longrightarrow> s_appId s = 1658654)
        \<and> (\<forall>img \<in> set (imagesGetStatus single_env).
              \<forall>s \<in> set (serviceManagerGetStatus single_env).
              i_appId img = 1658654 \<and> s_imageId s = Some (i_imageId img)
                \<longrightarrow> s_appId s = 1658654)
        \<and> filter (\<lambda>a. d_appId a = 1658654) (dbApps single_env)
            = filter (\<lambda>a. d_appId a = 1658654) (dbApps (device_env run_ok))
        \<and> filter (\<lambda>i. i_appId i = 1658654) (imagesGetStatus single_env)
            = filter (\<lambda>i. i_appId i = 1658654) (imagesGetStatus (device_env run_ok))
        \<and> filter (\<lambda>s. s_appId s = 1658654) (serviceManagerGetStatus single_env)
            = filter (\<lambda>s. s_appId s = 1658654) (serviceManagerGetStatus (device_env run_ok))"
    by (simp add: single_env_def device_env_def main_service_def other_service_def
          main_image_def other_image_def)
  note t = scoped_key_isolation [OF sc, of "device_env run_ok" "''stop''" host_c False]
  from t b have "handleServiceAction (device_env run_ok) ''stop''
        (request_for ''222222'' 1658654) host_c = rejected 222222 host_c"
    by blast
  then have "handleServiceAction (device_env run_ok) ''stop''
        (request_for ''222222'' 1658654) host_c
     = (Responded 401 (Failed ''Application is not available''), [IsScoped [222222]], host_c)"
    by (simp add: rejected_def)
  moreover have "r_containers (snd (stateStatus (device_env run_ok)
        (request_for ''222222'' 1658654) False)) = [main_service]"
    by (simp add: device_env_def request_for_def scopedTo_def stateStatus_def Let_def
          main_service_def other_service_def main_image_def other_image_def)
  moreover from t c have "applicationsState single_env (request_for ''222222'' 1658654)
     = applicationsState (device_env run_ok) (request_for ''222222'' 1658654)"
    by blast
  ultimately show ?thesis by simp
qed

end
